(* ===== verification/Prelude.thy ===== *)
theory Prelude
  imports Complex_Main "HOL-Library.Multiset"
begin

text \<open>
  Shared vocabulary of the development: the named collections that the component
  theories fill, the type names of the model (keys, times, association lists), and
  generic lemmas on association lists and lists that the components use when they
  filter the portfolio response or track requests in flight.
\<close>

named_theorems js_simps "evaluation rules of the JavaScript runtime model"
named_theorems cache_simps "evaluation rules of the query cache operations"
named_theorems view_simps "evaluation rules of the dashboard view functions"

type_synonym ms = nat \<comment> \<open>a point in time or a duration, in milliseconds\<close>

type_synonym ('k, 'v) alist = "('k \<times> 'v) list" \<comment> \<open>a JS object: keys in insertion order\<close>

subsection \<open>Association lists\<close>

lemma map_of_filter_key:
  "map_of (filter (\<lambda>(k, v). k \<noteq> r) xs) k' = (if k' = r then None else map_of xs k')"
  by (induction xs) auto

lemma map_of_filter_key_Some:
  "map_of (filter (\<lambda>(k, v). k \<noteq> r) xs) k' = Some v \<Longrightarrow> k' \<noteq> r \<and> map_of xs k' = Some v"
  by (simp add: map_of_filter_key split: if_splits)

lemma fst_filter_key:
  "map fst (filter (\<lambda>(k, v). k \<noteq> r) xs) = filter (\<lambda>k. k \<noteq> r) (map fst xs)"
  by (induction xs) auto

lemma distinct_filter_key:
  "distinct (map fst xs) \<Longrightarrow> distinct (map fst (filter (\<lambda>(k, v). k \<noteq> r) xs))"
  by (simp add: fst_filter_key)

subsection \<open>Lists of requests\<close>

lemma distinct_map_snd_remove1:
  "distinct (map snd xs) \<Longrightarrow> distinct (map snd (remove1 x xs))"
proof (induction xs)
  case (Cons y ys)
  then show ?case by (auto dest: notin_set_remove1 [of _ ys x] simp: image_iff)
qed simp

lemma length_filter_remove1_le:
  "length (filter P (remove1 x xs)) \<le> length (filter P xs)"
  by (induction xs) auto

end
