(* ===== verification/QueryCache.thy ===== *)
theory QueryCache
  imports Prelude
begin

text \<open>
  The data-fetch core: the query cache and the poll-driven fetch coordinator that the
  dashboard gets from RTK Query through \<open>useGetPortfolioInfoQuery\<close>. The library is not
  code of this repository, so the operations follow the spec's design (sections 4.1, 4.2
  and 5): reference-counted entries, a Loading guard against overlapping fetches,
  success/failure completion with the last good value kept on failure, eviction a
  retention window after the last subscriber leaves, and a poll timer per subscribed key.
  Responses are matched to their request by a request id, as RTK Query does, so that a
  response from before an eviction is discarded rather than written into a re-created
  entry.

  The configuration comes from the source: the endpoint \<open>getPortfolioInfo\<close> of
  \<open>src/src/api/app-api-slice.ts\<close> (\<open>keepUnusedDataFor: 15\<close>, in seconds) and the
  hook call in \<open>src/src/components/portforlio-table.tsx\<close> (\<open>pollingInterval: 15000\<close>,
  in milliseconds).

  The state is one record: the entries by key, the coordinator's next poll time by key,
  the requests in flight (key and request id, in the order issued), the next request id
  and the clock. Each operation is a function on it; \<open>cache_step\<close> applies one event
  and \<open>reachable\<close> is the set of states that events allowed by the environment reach.
\<close>

subsection \<open>Configuration from the source\<close>

record endpoint_config =
  ep_url :: string
  ep_method :: string
  keep_unused_for :: nat \<comment> \<open>seconds\<close>

definition base_url :: string where
  "base_url = ''http://localhost:8000/api''"

definition getPortfolioInfo :: endpoint_config where
  "getPortfolioInfo = \<lparr>ep_url = ''/portfolio'', ep_method = ''GET'', keep_unused_for = 15\<rparr>"

record cache_config =
  retention :: ms
  interval :: ms

text \<open>The subscription the dashboard makes: the endpoint's retention and the hook's interval.\<close>

definition dashboard_config :: cache_config where
  "dashboard_config = \<lparr>retention = keep_unused_for getPortfolioInfo * 1000, interval = 15000\<rparr>"

subsection \<open>Entries and state\<close>

datatype query_status = Idle | Loading | Success | Error

record ('v, 'e) query_entry =
  status :: query_status
  cached_value :: "'v option"
  error_info :: "'e option"
  subscribers :: nat
  last_fetched_at :: "ms option"
  evict_at :: "ms option"
  request_id :: "nat option"

record ('k, 'v, 'e) cache_state =
  entries :: "'k \<rightharpoonup> ('v, 'e) query_entry"
  polls :: "'k \<rightharpoonup> ms"
  inflight :: "('k \<times> nat) list"
  next_request :: nat
  clock :: ms

datatype ('v, 'e) fetch_result = Fetched 'v | Failed 'e

definition new_entry :: "('v, 'e) query_entry" where
  "new_entry = \<lparr>status = Idle, cached_value = None, error_info = None, subscribers = 0,
     last_fetched_at = None, evict_at = None, request_id = None\<rparr>"

definition init_cache :: "('k, 'v, 'e) cache_state" where
  "init_cache = \<lparr>entries = Map.empty, polls = Map.empty, inflight = [], next_request = 0, clock = 0\<rparr>"

subsection \<open>Operations\<close>

text \<open>\<open>beginFetch\<close>: only an entry that is not already loading issues a request.\<close>

definition begin_fetch :: "'k \<Rightarrow> ('k, 'v, 'e) cache_state \<Rightarrow> ('k, 'v, 'e) cache_state" where
  "begin_fetch k s =
     (case entries s k of
        None \<Rightarrow> s
      | Some e \<Rightarrow>
          if status e = Loading then s
          else s\<lparr>entries := (entries s)(k \<mapsto> e\<lparr>status := Loading, request_id := Some (next_request s)\<rparr>),
                 inflight := inflight s @ [(k, next_request s)],
                 next_request := Suc (next_request s)\<rparr>)"

text \<open>\<open>start\<close>: arm the poll timer; fetch now when the entry holds no fresh value.\<close>

definition start :: "cache_config \<Rightarrow> 'k \<Rightarrow> ('k, 'v, 'e) cache_state \<Rightarrow> ('k, 'v, 'e) cache_state" where
  "start cfg k s =
     (let s' = s\<lparr>polls := (polls s)(k \<mapsto> clock s + interval cfg)\<rparr> in
      case entries s k of
        Some e \<Rightarrow> if status e = Success then s' else begin_fetch k s'
      | None \<Rightarrow> s')"

text \<open>\<open>subscribe\<close>: create the entry lazily, count the subscriber, cancel a pending
  eviction, and start the coordinator on the first subscriber.\<close>

definition subscribe :: "cache_config \<Rightarrow> 'k \<Rightarrow> ('k, 'v, 'e) cache_state \<Rightarrow> ('k, 'v, 'e) cache_state" where
  "subscribe cfg k s =
     (let e = (case entries s k of None \<Rightarrow> new_entry | Some e \<Rightarrow> e);
          s' = s\<lparr>entries := (entries s)(k \<mapsto> e\<lparr>subscribers := Suc (subscribers e), evict_at := None\<rparr>)\<rparr>
      in if subscribers e = 0 then start cfg k s' else s')"

text \<open>\<open>unsubscribe\<close>: the last subscriber leaving stops the poll and starts eviction.\<close>

definition unsubscribe :: "cache_config \<Rightarrow> 'k \<Rightarrow> ('k, 'v, 'e) cache_state \<Rightarrow> ('k, 'v, 'e) cache_state" where
  "unsubscribe cfg k s =
     (case entries s k of
        None \<Rightarrow> s
      | Some e \<Rightarrow>
          if subscribers e = 0 then s
          else if subscribers e = 1 then
            s\<lparr>entries := (entries s)(k \<mapsto> e\<lparr>subscribers := 0, evict_at := Some (clock s + retention cfg)\<rparr>),
              polls := (polls s)(k := None)\<rparr>
          else s\<lparr>entries := (entries s)(k \<mapsto> e\<lparr>subscribers := subscribers e - 1\<rparr>)\<rparr>)"

text \<open>\<open>completeFetch\<close> applied to an entry: success replaces the value and clears the
  error; failure records the error and keeps the last good value.\<close>

fun apply_result :: "ms \<Rightarrow> ('v, 'e) fetch_result \<Rightarrow> ('v, 'e) query_entry \<Rightarrow> ('v, 'e) query_entry" where
  "apply_result now (Fetched v) e =
     e\<lparr>status := Success, cached_value := Some v, error_info := None, last_fetched_at := Some now\<rparr>"
| "apply_result now (Failed x) e = e\<lparr>status := Error, error_info := Some x\<rparr>"

text \<open>A response leaves the network; it is written only into the entry that issued it and
  is still waiting for it.\<close>

definition complete_fetch ::
  "'k \<Rightarrow> nat \<Rightarrow> ('v, 'e) fetch_result \<Rightarrow> ('k, 'v, 'e) cache_state \<Rightarrow> ('k, 'v, 'e) cache_state" where
  "complete_fetch k r res s =
     (let s' = s\<lparr>inflight := remove1 (k, r) (inflight s)\<rparr> in
      case entries s k of
        None \<Rightarrow> s'
      | Some e \<Rightarrow>
          if request_id e = Some r \<and> status e = Loading
          then s'\<lparr>entries := (entries s)(k \<mapsto> apply_result (clock s) res e)\<rparr>
          else s')"

text \<open>A poll tick that is due fetches (subject to the Loading guard) and re-arms the
  timer, whatever the outcome of the last cycle.\<close>

definition poll_tick :: "cache_config \<Rightarrow> 'k \<Rightarrow> ('k, 'v, 'e) cache_state \<Rightarrow> ('k, 'v, 'e) cache_state" where
  "poll_tick cfg k s =
     (case polls s k of
        None \<Rightarrow> s
      | Some t \<Rightarrow>
          if t \<le> clock s then begin_fetch k (s\<lparr>polls := (polls s)(k \<mapsto> clock s + interval cfg)\<rparr>)
          else s)"

text \<open>The eviction timer: an entry with no subscriber whose deadline has passed is deleted.\<close>

definition evict :: "'k \<Rightarrow> ('k, 'v, 'e) cache_state \<Rightarrow> ('k, 'v, 'e) cache_state" where
  "evict k s =
     (case entries s k of
        None \<Rightarrow> s
      | Some e \<Rightarrow>
          (case evict_at e of
             Some t \<Rightarrow> if subscribers e = 0 \<and> t \<le> clock s then s\<lparr>entries := (entries s)(k := None)\<rparr> else s
           | None \<Rightarrow> s))"

definition advance :: "ms \<Rightarrow> ('k, 'v, 'e) cache_state \<Rightarrow> ('k, 'v, 'e) cache_state" where
  "advance d s = s\<lparr>clock := clock s + d\<rparr>"

subsection \<open>Events, steps and reachable states\<close>

datatype ('k, 'v, 'e) cache_event =
    Subscribe 'k
  | Unsubscribe 'k
  | PollTick 'k
  | Respond 'k nat "('v, 'e) fetch_result"
  | Evict 'k
  | Advance ms

fun cache_step :: "cache_config \<Rightarrow> ('k, 'v, 'e) cache_state \<Rightarrow> ('k, 'v, 'e) cache_event \<Rightarrow> ('k, 'v, 'e) cache_state" where
  "cache_step cfg s (Subscribe k) = subscribe cfg k s"
| "cache_step cfg s (Unsubscribe k) = unsubscribe cfg k s"
| "cache_step cfg s (PollTick k) = poll_tick cfg k s"
| "cache_step cfg s (Respond k r res) = complete_fetch k r res s"
| "cache_step cfg s (Evict k) = evict k s"
| "cache_step cfg s (Advance d) = advance d s"

text \<open>The network answers only requests that were issued and are still in flight.\<close>

fun enabled :: "('k, 'v, 'e) cache_state \<Rightarrow> ('k, 'v, 'e) cache_event \<Rightarrow> bool" where
  "enabled s (Respond k r res) = ((k, r) \<in> set (inflight s))"
| "enabled s ev = True"

inductive reachable :: "cache_config \<Rightarrow> ('k, 'v, 'e) cache_state \<Rightarrow> bool" for cfg where
  init: "reachable cfg init_cache"
| step: "reachable cfg s \<Longrightarrow> enabled s ev \<Longrightarrow> reachable cfg (cache_step cfg s ev)"

fun run :: "cache_config \<Rightarrow> ('k, 'v, 'e) cache_state \<Rightarrow> ('k, 'v, 'e) cache_event list \<Rightarrow> ('k, 'v, 'e) cache_state" where
  "run cfg s [] = s"
| "run cfg s (ev # evs) = run cfg (cache_step cfg s ev) evs"

fun valid_run :: "('k, 'v, 'e) cache_state \<Rightarrow> cache_config \<Rightarrow> ('k, 'v, 'e) cache_event list \<Rightarrow> bool" where
  "valid_run s cfg [] = True"
| "valid_run s cfg (ev # evs) = (enabled s ev \<and> valid_run (cache_step cfg s ev) cfg evs)"

subsection \<open>The hook's view\<close>

text \<open>What \<open>useGetPortfolioInfoQuery\<close> hands the dashboard: \<open>data\<close>, \<open>error\<close> and
  \<open>isLoading\<close>, the last true only while the first fetch of an entry is pending.\<close>

record ('v, 'e) query_view =
  qv_data :: "'v option"
  qv_error :: "'e option"
  qv_isLoading :: bool

definition query_view :: "('k, 'v, 'e) cache_state \<Rightarrow> 'k \<Rightarrow> ('v, 'e) query_view" where
  "query_view s k =
     (case entries s k of
        None \<Rightarrow> \<lparr>qv_data = None, qv_error = None, qv_isLoading = False\<rparr>
      | Some e \<Rightarrow> \<lparr>qv_data = cached_value e, qv_error = error_info e,
                   qv_isLoading = (status e = Loading \<and> cached_value e = None)\<rparr>)"

subsection \<open>Example runs\<close>

text \<open>Concrete event sequences for the key \<open>''portfolio''\<close>, used by the witnesses.\<close>

definition first_fetch :: "(string, nat, string) cache_state" where
  "first_fetch = run dashboard_config init_cache [Subscribe ''portfolio'']"

definition first_fetch_entry :: "(nat, string) query_entry" where
  "first_fetch_entry = new_entry\<lparr>status := Loading, subscribers := 1, request_id := Some 0\<rparr>"

definition evict_resubscribe_run :: "(string, nat, string) cache_event list" where
  "evict_resubscribe_run =
     [Subscribe ''portfolio'', Unsubscribe ''portfolio'', Advance 15000, Evict ''portfolio'', Subscribe ''portfolio'']"

definition evict_due :: "(string, nat, string) cache_state" where
  "evict_due = run dashboard_config init_cache [Subscribe ''portfolio'', Unsubscribe ''portfolio'', Advance 15000]"

definition poll_due :: "(string, nat, string) cache_state" where
  "poll_due = run dashboard_config first_fetch [Respond ''portfolio'' 0 (Failed ''timeout''), Advance 15000]"

subsection \<open>Evaluation rules\<close>

lemmas cache_op_defs [cache_simps] = begin_fetch_def start_def subscribe_def unsubscribe_def
  complete_fetch_def poll_tick_def evict_def advance_def new_entry_def init_cache_def

lemma apply_result_fields [simp]:
  "status (apply_result t res e) \<noteq> Loading"
  "request_id (apply_result t res e) = request_id e"
  "subscribers (apply_result t res e) = subscribers e"
  "evict_at (apply_result t res e) = evict_at e"
  by (cases res; simp)+

lemma cache_step_keeps_value:
  assumes "entries s k = Some e" "cached_value e \<noteq> None" "entries (cache_step cfg s ev) k = Some e'"
  shows "cached_value e' \<noteq> None"
proof (cases ev)
  case (Respond k' r res)
  then show ?thesis using assms
    by (cases res) (auto simp: complete_fetch_def Let_def split: option.splits if_splits)
qed (use assms in \<open>auto simp: cache_simps Let_def split: option.splits if_splits\<close>)

subsection \<open>Properties of the cache\<close>

lemma inflight_begin_fetch:
  "inflight (begin_fetch k s) =
     (case entries s k of
        Some e \<Rightarrow> if status e = Loading then inflight s else inflight s @ [(k, next_request s)]
      | None \<Rightarrow> inflight s)"
  by (simp add: begin_fetch_def split: option.splits)

lemma begin_fetch_loading [simp]:
  "entries s k = Some e \<Longrightarrow> status e = Loading \<Longrightarrow> begin_fetch k s = s"
  by (simp add: begin_fetch_def)

lemma reachable_run:
  "reachable cfg s \<Longrightarrow> valid_run s cfg evs \<Longrightarrow> reachable cfg (run cfg s evs)"
proof (induction evs arbitrary: s)
  case (Cons ev evs)
  then show ?case by (auto intro: reachable.step)
qed simp

text \<open>
  C1. No overlapping fetches: while a key's fetch is pending (its entry is Loading), no
  event of the dashboard's cache issues another request for that key: a second
  subscriber, a poll tick, a response, an eviction or the passing of time leaves at most
  as many requests for the key in flight as before.
\<close>

theorem no_second_fetch_while_loading:
  assumes "entries s k = Some e" and "status e = Loading"
  shows "length (filter (\<lambda>kr. fst kr = k) (inflight (cache_step dashboard_config s ev)))
           \<le> length (filter (\<lambda>kr. fst kr = k) (inflight s))"
proof (cases ev)
  case (Subscribe k')
  then show ?thesis using assms
    by (auto simp: subscribe_def start_def Let_def inflight_begin_fetch split: option.splits)
next
  case (PollTick k')
  then show ?thesis using assms
    by (auto simp: poll_tick_def inflight_begin_fetch split: option.splits)
next
  case (Respond k' r res)
  then show ?thesis
    by (auto simp: complete_fetch_def Let_def length_filter_remove1_le split: option.splits)
qed (auto simp: unsubscribe_def evict_def advance_def split: option.splits)


lemma first_fetch_state:
  "entries first_fetch ''portfolio'' = Some first_fetch_entry"
  "inflight first_fetch = [(''portfolio'', 0)]"
  by (simp_all add: first_fetch_def first_fetch_entry_def cache_simps dashboard_config_def
      getPortfolioInfo_def Let_def)

lemma first_fetch_reachable: "reachable dashboard_config first_fetch"
  unfolding first_fetch_def by (rule reachable_run [OF reachable.init]) simp

theorem no_second_fetch_while_loading_witness:
  "length (filter (\<lambda>kr. fst kr = ''portfolio'')
     (inflight (cache_step dashboard_config first_fetch (Subscribe ''portfolio'')))) \<le> 1"
  using no_second_fetch_while_loading [OF first_fetch_state(1), of "Subscribe ''portfolio''"]
  by (simp add: first_fetch_entry_def new_entry_def first_fetch_state(2))

lemma evict_resubscribe_state:
  "inflight (run dashboard_config init_cache evict_resubscribe_run) = [(''portfolio'', 0), (''portfolio'', 1)]"
  "entries (run dashboard_config init_cache evict_resubscribe_run) ''portfolio'' =
     Some (new_entry\<lparr>status := Loading, subscribers := 1, request_id := Some 1\<rparr>)"
  by (simp_all add: evict_resubscribe_run_def cache_simps dashboard_config_def getPortfolioInfo_def Let_def)

lemma evict_resubscribe_reachable:
  "reachable dashboard_config (run dashboard_config init_cache evict_resubscribe_run)"
  by (rule reachable_run [OF reachable.init]) (simp add: evict_resubscribe_run_def)

lemma evict_due_state:
  "entries evict_due ''portfolio'' =
     Some (new_entry\<lparr>status := Loading, request_id := Some 0, evict_at := Some 15000\<rparr>)"
  "clock evict_due = 15000"
  by (simp_all add: evict_due_def cache_simps dashboard_config_def getPortfolioInfo_def Let_def)

lemma evict_due_reachable: "reachable dashboard_config evict_due"
  unfolding evict_due_def by (rule reachable_run [OF reachable.init]) simp

lemma poll_due_state:
  "entries poll_due ''portfolio'' = Some (first_fetch_entry\<lparr>status := Error, error_info := Some ''timeout''\<rparr>)"
  "polls poll_due ''portfolio'' = Some 15000" "clock poll_due = 15000"
  "inflight poll_due = []" "next_request poll_due = 1"
  by (simp_all add: poll_due_def first_fetch_def first_fetch_entry_def cache_simps dashboard_config_def
      getPortfolioInfo_def Let_def)

text \<open>
  C5. Completing the pending fetch: a successful response makes the hook report the new
  data with no error and not loading; a failed one reports the error and keeps the last
  good value (the stale-data policy of RTK Query), not loading.
\<close>

theorem complete_fetch_view:
  assumes "entries s k = Some e" "request_id e = Some r" "status e = Loading"
  shows "query_view (cache_step dashboard_config s (Respond k r (Fetched v))) k =
           \<lparr>qv_data = Some v, qv_error = None, qv_isLoading = False\<rparr> \<and>
         query_view (cache_step dashboard_config s (Respond k r (Failed x))) k =
           \<lparr>qv_data = cached_value e, qv_error = Some x, qv_isLoading = False\<rparr>"
  using assms by (simp add: complete_fetch_def query_view_def Let_def)

text \<open>
  C6. Retention: after the last subscriber of an entry leaves, the eviction timer deletes
  the entry once 15 s (the endpoint's \<open>keepUnusedDataFor\<close>) have passed and not
  before; a new subscriber in the meantime cancels the eviction and finds the cached
  value.
\<close>

theorem eviction_lifecycle:
  assumes "entries s k = Some e" "subscribers e = 1"
  shows "(15000 \<le> d \<longrightarrow>
            entries (run dashboard_config s [Unsubscribe k, Advance d, Evict k]) k = None) \<and>
         (d < 15000 \<longrightarrow>
            entries (run dashboard_config s [Unsubscribe k, Advance d, Evict k]) k \<noteq> None) \<and>
         (\<exists>e'. entries (run dashboard_config s [Unsubscribe k, Advance d, Subscribe k]) k = Some e' \<and>
            cached_value e' = cached_value e \<and> evict_at e' = None \<and> subscribers e' = 1)"
  using assms by (auto simp: cache_simps dashboard_config_def getPortfolioInfo_def Let_def split: option.splits)

text \<open>
  C7. Only the first subscriber fetches: subscribing to a key of the dashboard's cache
  issues a network request exactly when the key has no entry, or its entry has no
  subscriber and neither holds a fresh value nor is loading; every further subscriber only increments the count, so any
  number of components reading the same query cause one request.
\<close>

theorem subscribe_fetches_once:
  "inflight (subscribe dashboard_config k s) =
     (case entries s k of
        None \<Rightarrow> inflight s @ [(k, next_request s)]
      | Some e \<Rightarrow> if subscribers e = 0 \<and> status e \<noteq> Success \<and> status e \<noteq> Loading
                  then inflight s @ [(k, next_request s)] else inflight s) \<and>
   map_option subscribers (entries (subscribe dashboard_config k s) k) =
     Some (Suc (case entries s k of None \<Rightarrow> 0 | Some e \<Rightarrow> subscribers e))"
  by (auto simp: subscribe_def start_def Let_def begin_fetch_def new_entry_def split: option.splits)

text \<open>
  C8. Polling goes on whatever the outcome: a poll tick of the dashboard's query that is
  due re-arms the timer \<open>pollingInterval\<close> (15 s) after the current time and issues
  a request unless the entry is still loading, whether the last cycle succeeded or
  failed; a tick that is not yet due changes nothing.
\<close>

theorem poll_tick_behaviour:
  assumes "polls s k = Some t" "entries s k = Some e"
  shows "(t \<le> clock s \<longrightarrow>
            polls (poll_tick dashboard_config k s) k = Some (clock s + 15000) \<and>
            inflight (poll_tick dashboard_config k s) =
              (if status e = Loading then inflight s else inflight s @ [(k, next_request s)])) \<and>
         (clock s < t \<longrightarrow> poll_tick dashboard_config k s = s)"
  using assms by (auto simp: poll_tick_def begin_fetch_def dashboard_config_def)

theorem complete_fetch_view_witness:
  "query_view (cache_step dashboard_config first_fetch (Respond ''portfolio'' 0 (Fetched 7))) ''portfolio'' =
     \<lparr>qv_data = Some 7, qv_error = None, qv_isLoading = False\<rparr>"
  using complete_fetch_view [OF first_fetch_state(1), of 0 7]
  by (simp add: first_fetch_entry_def new_entry_def)

theorem subscribe_fetches_once_witness:
  "inflight (subscribe dashboard_config ''portfolio'' first_fetch) = [(''portfolio'', 0)] \<and>
   map_option subscribers (entries (subscribe dashboard_config ''portfolio'' first_fetch) ''portfolio'') = Some 2"
  using subscribe_fetches_once [of "''portfolio''" first_fetch]
  by (simp add: first_fetch_state first_fetch_entry_def new_entry_def numeral_2_eq_2)

theorem poll_tick_behaviour_witness:
  "polls (poll_tick dashboard_config ''portfolio'' poll_due) ''portfolio'' = Some 30000 \<and>
   inflight (poll_tick dashboard_config ''portfolio'' poll_due) = [(''portfolio'', 1)]"
  using poll_tick_behaviour [OF poll_due_state(2,1)]
  by (simp add: poll_due_state first_fetch_entry_def)

theorem eviction_lifecycle_witness:
  "entries (run dashboard_config first_fetch [Unsubscribe ''portfolio'', Advance 15000, Evict ''portfolio'']) ''portfolio'' = None"
  using eviction_lifecycle [OF first_fetch_state(1), of 15000]
  by (simp add: first_fetch_entry_def new_entry_def)

end
