(* ===== verification/CacheInvariant.thy ===== *)
theory CacheInvariant
  imports QueryCache
begin

text \<open>
  The invariant of the query cache (\<open>cache_inv\<close>) and its proof: it holds initially and
  every operation keeps it (one lemma per operation, with a frame lemma for the keys an
  operation leaves alone), hence it holds in every reachable state. The properties that
  rest on it follow: stale responses are discarded, a Loading entry always has a response
  pending, and the poll and eviction timers agree with the subscriber count.
\<close>

subsection \<open>The invariant\<close>

text \<open>
  Request ids are unique and below the next id. For each entry: its current request id
  is the newest request for its key in flight; a Loading entry has its request in
  flight, and an entry whose current request is in flight is Loading; it has no
  subscriber exactly when an eviction is pending, exactly when its poll timer is off.
  A key without an entry has no poll timer.
\<close>

definition ids_ok :: "('k, 'v, 'e) cache_state \<Rightarrow> bool" where
  "ids_ok s \<longleftrightarrow> distinct (map snd (inflight s)) \<and> (\<forall>kr \<in> set (inflight s). snd kr < next_request s)"

definition entry_ok :: "('k, 'v, 'e) cache_state \<Rightarrow> 'k \<Rightarrow> ('v, 'e) query_entry \<Rightarrow> bool" where
  "entry_ok s k e \<longleftrightarrow>
     (\<forall>r. request_id e = Some r \<longrightarrow> r < next_request s \<and> (\<forall>r'. (k, r') \<in> set (inflight s) \<longrightarrow> r' \<le> r)) \<and>
     (status e = Loading \<longrightarrow> (\<exists>r. request_id e = Some r \<and> (k, r) \<in> set (inflight s))) \<and>
     (\<forall>r. request_id e = Some r \<longrightarrow> (k, r) \<in> set (inflight s) \<longrightarrow> status e = Loading) \<and>
     (subscribers e = 0 \<longleftrightarrow> evict_at e \<noteq> None) \<and>
     (polls s k = None \<longleftrightarrow> subscribers e = 0)"

definition key_ok :: "('k, 'v, 'e) cache_state \<Rightarrow> 'k \<Rightarrow> bool" where
  "key_ok s k \<longleftrightarrow> (case entries s k of None \<Rightarrow> polls s k = None | Some e \<Rightarrow> entry_ok s k e)"

definition cache_inv :: "('k, 'v, 'e) cache_state \<Rightarrow> bool" where
  "cache_inv s \<longleftrightarrow> ids_ok s \<and> (\<forall>k. key_ok s k)"

lemma cache_inv_init: "cache_inv init_cache"
  by (simp add: cache_inv_def ids_ok_def key_ok_def init_cache_def)

lemma cache_invI:
  "ids_ok s \<Longrightarrow> key_ok s k \<Longrightarrow> (\<And>k'. k' \<noteq> k \<Longrightarrow> key_ok s k') \<Longrightarrow> cache_inv s"
  unfolding cache_inv_def by metis

text \<open>Frame: a key whose entry, requests in flight and poll timer a step leaves alone stays
  well-formed when request ids only grow.\<close>

lemma key_ok_frame:
  assumes "key_ok s k" "entries s' k = entries s k" "polls s' k = polls s k"
    "next_request s \<le> next_request s'"
    "\<And>r. (k, r) \<in> set (inflight s') \<longleftrightarrow> (k, r) \<in> set (inflight s)"
  shows "key_ok s' k"
  using assms by (fastforce simp: key_ok_def entry_ok_def split: option.splits)

lemma begin_fetch_inv:
  assumes inv: "cache_inv s"
  shows "cache_inv (begin_fetch k s)"
proof (cases "entries s k")
  case None
  with inv show ?thesis by (simp add: begin_fetch_def)
next
  case (Some e)
  show ?thesis
  proof (cases "status e = Loading")
    case True
    with Some inv show ?thesis by (simp add: begin_fetch_def)
  next
    case False
    let ?s = "begin_fetch k s"
    have s: "?s = s\<lparr>entries := (entries s)(k \<mapsto> e\<lparr>status := Loading, request_id := Some (next_request s)\<rparr>),
                 inflight := inflight s @ [(k, next_request s)], next_request := Suc (next_request s)\<rparr>"
      using Some False by (simp add: begin_fetch_def)
    from inv have ids: "ids_ok s" and keys: "\<And>k. key_ok s k" by (auto simp: cache_inv_def)
    have "ids_ok ?s"
      using ids by (auto simp: s ids_ok_def)
    moreover have "key_ok ?s k"
      using ids keys [of k] Some by (fastforce simp: s key_ok_def entry_ok_def ids_ok_def less_Suc_eq)
    moreover have "key_ok ?s k'" if "k' \<noteq> k" for k'
      by (rule key_ok_frame [OF keys [of k']]) (use that in \<open>auto simp: s\<close>)
    ultimately show ?thesis by (rule cache_invI)
  qed
qed

lemma subscribe_inv:
  assumes inv: "cache_inv s"
  shows "cache_inv (subscribe cfg k s)"
proof -
  from inv have ids: "ids_ok s" and keys: "\<And>k. key_ok s k" by (auto simp: cache_inv_def)
  define e where "e = (case entries s k of None \<Rightarrow> new_entry | Some e \<Rightarrow> e)"
  define e1 where "e1 = e\<lparr>subscribers := Suc (subscribers e), evict_at := None\<rparr>"
  define s1 where "s1 = s\<lparr>entries := (entries s)(k \<mapsto> e1)\<rparr>"
  have e_ok: "status e = Loading \<longrightarrow> (\<exists>r. request_id e = Some r \<and> (k, r) \<in> set (inflight s))"
    "\<forall>r. request_id e = Some r \<longrightarrow> r < next_request s \<and> (\<forall>r'. (k, r') \<in> set (inflight s) \<longrightarrow> r' \<le> r)"
    "\<forall>r. request_id e = Some r \<longrightarrow> (k, r) \<in> set (inflight s) \<longrightarrow> status e = Loading"
    using keys [of k] by (auto simp: e_def key_ok_def entry_ok_def new_entry_def split: option.splits)
  show ?thesis
  proof (cases "subscribers e = 0")
    case True
    define s2 where "s2 = s1\<lparr>polls := (polls s1)(k \<mapsto> clock s1 + interval cfg)\<rparr>"
    have "cache_inv s2"
    proof (rule cache_invI)
      show "ids_ok s2" using ids by (simp add: s2_def s1_def ids_ok_def)
      show "key_ok s2 k" using e_ok by (simp add: s2_def s1_def e1_def key_ok_def entry_ok_def)
      show "key_ok s2 k'" if "k' \<noteq> k" for k'
        by (rule key_ok_frame [OF keys [of k']]) (use that in \<open>auto simp: s2_def s1_def\<close>)
    qed
    then have "cache_inv (if status e1 = Success then s2 else begin_fetch k s2)"
      by (simp add: begin_fetch_inv)
    moreover have "subscribe cfg k s = (if status e1 = Success then s2 else begin_fetch k s2)"
      using True by (simp add: subscribe_def start_def Let_def e_def [symmetric] e1_def s1_def s2_def)
    ultimately show ?thesis by simp
  next
    case False
    have "polls s k \<noteq> None"
      using keys [of k] False by (auto simp: e_def key_ok_def entry_ok_def new_entry_def split: option.splits)
    have "cache_inv s1"
    proof (rule cache_invI)
      show "ids_ok s1" using ids by (simp add: s1_def ids_ok_def)
      show "key_ok s1 k" using e_ok \<open>polls s k \<noteq> None\<close> by (simp add: s1_def e1_def key_ok_def entry_ok_def)
      show "key_ok s1 k'" if "k' \<noteq> k" for k'
        by (rule key_ok_frame [OF keys [of k']]) (use that in \<open>auto simp: s1_def\<close>)
    qed
    moreover have "subscribe cfg k s = s1"
      using False by (simp add: subscribe_def Let_def e_def [symmetric] e1_def s1_def)
    ultimately show ?thesis by simp
  qed
qed

lemma unsubscribe_inv:
  assumes inv: "cache_inv s"
  shows "cache_inv (unsubscribe cfg k s)"
proof (cases "entries s k")
  case None
  with inv show ?thesis by (simp add: unsubscribe_def)
next
  case (Some e)
  from inv have ids: "ids_ok s" and keys: "\<And>k. key_ok s k" by (auto simp: cache_inv_def)
  have eok: "entry_ok s k e" using keys [of k] Some by (simp add: key_ok_def)
  consider "subscribers e = 0" | "subscribers e = 1" | "subscribers e > 1" by linarith
  then show ?thesis
  proof cases
    case 1
    with inv Some show ?thesis by (simp add: unsubscribe_def)
  next
    case 2
    define s' where "s' = s\<lparr>entries := (entries s)(k \<mapsto> e\<lparr>subscribers := 0, evict_at := Some (clock s + retention cfg)\<rparr>),
              polls := (polls s)(k := None)\<rparr>"
    have "cache_inv s'"
    proof (rule cache_invI)
      show "ids_ok s'" using ids by (simp add: s'_def ids_ok_def)
      show "key_ok s' k" using eok by (simp add: s'_def key_ok_def entry_ok_def)
      show "key_ok s' k'" if "k' \<noteq> k" for k'
        by (rule key_ok_frame [OF keys [of k']]) (use that in \<open>auto simp: s'_def\<close>)
    qed
    with Some 2 show ?thesis by (simp add: unsubscribe_def s'_def)
  next
    case 3
    define s' where "s' = s\<lparr>entries := (entries s)(k \<mapsto> e\<lparr>subscribers := subscribers e - 1\<rparr>)\<rparr>"
    have "cache_inv s'"
    proof (rule cache_invI)
      show "ids_ok s'" using ids by (simp add: s'_def ids_ok_def)
      show "key_ok s' k" using eok 3 by (simp add: s'_def key_ok_def entry_ok_def)
      show "key_ok s' k'" if "k' \<noteq> k" for k'
        by (rule key_ok_frame [OF keys [of k']]) (use that in \<open>auto simp: s'_def\<close>)
    qed
    with Some 3 show ?thesis by (simp add: unsubscribe_def s'_def)
  qed
qed

lemma ids_ok_set_remove1:
  "ids_ok s \<Longrightarrow> set (remove1 x (inflight s)) = set (inflight s) - {x}"
  by (simp add: ids_ok_def set_remove1_eq distinct_map)

lemma complete_fetch_inv:
  assumes inv: "cache_inv s"
  shows "cache_inv (complete_fetch k r res s)"
proof -
  from inv have ids: "ids_ok s" and keys: "\<And>k. key_ok s k" by (auto simp: cache_inv_def)
  define s' where "s' = s\<lparr>inflight := remove1 (k, r) (inflight s)\<rparr>"
  have set': "set (inflight s') = set (inflight s) - {(k, r)}"
    using ids by (simp add: s'_def ids_ok_set_remove1)
  have ids': "ids_ok s'"
    using ids set' by (auto simp: s'_def ids_ok_def distinct_map_snd_remove1)
  have frame: "key_ok s'' k'" if "k' \<noteq> k" "entries s'' k' = entries s k'" "polls s'' = polls s"
    "inflight s'' = inflight s'" "next_request s'' = next_request s" for s'' :: "('a, 'b, 'c) cache_state" and k'
    by (rule key_ok_frame [OF keys [of k']]) (use that set' in auto)
  show ?thesis
  proof (cases "entries s k")
    case None
    have "cache_inv s'"
    proof (rule cache_invI [OF ids', of k])
      show "key_ok s' k" using keys [of k] None by (simp add: key_ok_def s'_def)
      show "key_ok s' k'" if "k' \<noteq> k" for k' using that by (intro frame) (simp_all add: s'_def)
    qed
    with None show ?thesis by (simp add: complete_fetch_def s'_def [symmetric])
  next
    case (Some e)
    have eok: "entry_ok s k e" using keys [of k] Some by (simp add: key_ok_def)
    show ?thesis
    proof (cases "request_id e = Some r \<and> status e = Loading")
      case True
      define s'' where "s'' = s'\<lparr>entries := (entries s)(k \<mapsto> apply_result (clock s) res e)\<rparr>"
      have "cache_inv s''"
      proof (rule cache_invI)
        show "ids_ok s''" using ids' by (simp add: s''_def ids_ok_def)
        show "key_ok s'' k" using eok True set' by (auto simp: s''_def s'_def key_ok_def entry_ok_def)
        show "key_ok s'' k'" if "k' \<noteq> k" for k' using that by (intro frame) (simp_all add: s''_def s'_def)
      qed
      with Some True show ?thesis by (simp add: complete_fetch_def s'_def [symmetric] s''_def)
    next
      case False
      have "cache_inv s'"
      proof (rule cache_invI [OF ids', of k])
        show "key_ok s' k" using eok False set' Some by (auto simp: s'_def key_ok_def entry_ok_def)
        show "key_ok s' k'" if "k' \<noteq> k" for k' using that by (intro frame) (simp_all add: s'_def)
      qed
      moreover have "complete_fetch k r res s = s'"
        using Some False by (auto simp: complete_fetch_def s'_def Let_def)
      ultimately show ?thesis by simp
    qed
  qed
qed

lemma poll_tick_inv:
  assumes inv: "cache_inv s"
  shows "cache_inv (poll_tick cfg k s)"
proof (cases "polls s k")
  case None
  with inv show ?thesis by (simp add: poll_tick_def)
next
  case (Some t)
  from inv have ids: "ids_ok s" and keys: "\<And>k. key_ok s k" by (auto simp: cache_inv_def)
  define s1 where "s1 = s\<lparr>polls := (polls s)(k \<mapsto> clock s + interval cfg)\<rparr>"
  have "cache_inv s1"
  proof (rule cache_invI)
    show "ids_ok s1" using ids by (simp add: s1_def ids_ok_def)
    show "key_ok s1 k" using keys [of k] Some by (auto simp: s1_def key_ok_def entry_ok_def split: option.splits)
    show "key_ok s1 k'" if "k' \<noteq> k" for k'
      by (rule key_ok_frame [OF keys [of k']]) (use that in \<open>auto simp: s1_def\<close>)
  qed
  then show ?thesis using Some inv by (simp add: poll_tick_def s1_def [symmetric] begin_fetch_inv)
qed

lemma evict_inv:
  assumes inv: "cache_inv s"
  shows "cache_inv (evict k s)"
proof (cases "entries s k")
  case None
  with inv show ?thesis by (simp add: evict_def)
next
  case (Some e)
  from inv have ids: "ids_ok s" and keys: "\<And>k. key_ok s k" by (auto simp: cache_inv_def)
  define s1 where "s1 = s\<lparr>entries := (entries s)(k := None)\<rparr>"
  have "cache_inv s1" if "subscribers e = 0"
  proof (rule cache_invI)
    show "ids_ok s1" using ids by (simp add: s1_def ids_ok_def)
    show "key_ok s1 k" using keys [of k] Some that by (simp add: s1_def key_ok_def entry_ok_def)
    show "key_ok s1 k'" if "k' \<noteq> k" for k'
      by (rule key_ok_frame [OF keys [of k']]) (use that in \<open>auto simp: s1_def\<close>)
  qed
  with inv Some show ?thesis by (auto simp: evict_def s1_def split: option.splits)
qed

lemma key_ok_clock: "key_ok (s\<lparr>clock := c\<rparr>) k = key_ok s k"
  by (simp add: key_ok_def entry_ok_def split: option.splits)

lemma advance_inv: "cache_inv s \<Longrightarrow> cache_inv (advance d s)"
  by (simp add: advance_def cache_inv_def ids_ok_def key_ok_clock)

lemma cache_step_inv: "cache_inv s \<Longrightarrow> cache_inv (cache_step cfg s ev)"
  by (cases ev) (simp_all add: subscribe_inv unsubscribe_inv poll_tick_inv complete_fetch_inv
      evict_inv advance_inv)

lemma reachable_cache_inv: "reachable cfg s \<Longrightarrow> cache_inv s"
  by (induction rule: reachable.induct) (simp_all add: cache_inv_init cache_step_inv)


text \<open>
  C2. Lost-update avoidance: in every reachable state, a response to a request for which a
  newer request of the same key is in flight leaves the key's entry unchanged, so a stale
  response never overwrites the state a newer fetch will produce.
\<close>

theorem stale_response_discarded:
  assumes "reachable dashboard_config s" "(k, r1) \<in> set (inflight s)" "(k, r2) \<in> set (inflight s)" "r1 < r2"
  shows "entries (cache_step dashboard_config s (Respond k r1 res)) k = entries s k"
proof -
  have "cache_inv s" using assms(1) by (rule reachable_cache_inv)
  then have "request_id e \<noteq> Some r1" if "entries s k = Some e" for e
    using that assms(3,4) by (fastforce simp: cache_inv_def key_ok_def entry_ok_def dest: spec [of _ k])
  then show ?thesis by (auto simp: complete_fetch_def Let_def split: option.splits)
qed

theorem stale_response_discarded_witness:
  "reachable dashboard_config (run dashboard_config init_cache evict_resubscribe_run) \<and>
   entries (cache_step dashboard_config (run dashboard_config init_cache evict_resubscribe_run)
     (Respond ''portfolio'' 0 (Fetched 7))) ''portfolio''
   = entries (run dashboard_config init_cache evict_resubscribe_run) ''portfolio''"
  using stale_response_discarded [OF evict_resubscribe_reachable, of "''portfolio''" 0 1 "Fetched 7"]
    evict_resubscribe_reachable
  by (simp add: evict_resubscribe_state)

lemma reachable_entry_ok:
  "reachable cfg s \<Longrightarrow> entries s k = Some e \<Longrightarrow> entry_ok s k e"
  by (drule reachable_cache_inv) (auto simp: cache_inv_def key_ok_def dest: spec [of _ k])

text \<open>
  C3. The Loading guard never blocks a key for good: in every reachable state, a Loading
  entry has its request in flight, and the network's answer to it, success or failure,
  takes the entry out of Loading.
\<close>

theorem reachable_loading_pending:
  assumes "reachable dashboard_config s" "entries s k = Some e" "status e = Loading"
  shows "\<exists>r. enabled s (Respond k r res) \<and>
           (\<exists>e'. entries (cache_step dashboard_config s (Respond k r res)) k = Some e' \<and> status e' \<noteq> Loading)"
proof -
  obtain r where "request_id e = Some r" "(k, r) \<in> set (inflight s)"
    using reachable_entry_ok [OF assms(1,2)] assms(3) by (auto simp: entry_ok_def)
  then show ?thesis using assms(2,3) by (auto simp: complete_fetch_def Let_def)
qed

text \<open>
  C4. Stopping the poll and starting eviction happen together: in every reachable state an
  entry's poll timer is armed exactly when it has subscribers, and an eviction is pending
  exactly when it has none.
\<close>

theorem reachable_timers_consistent:
  assumes "reachable dashboard_config s" "entries s k = Some e"
  shows "(polls s k \<noteq> None \<longleftrightarrow> 0 < subscribers e) \<and> (evict_at e \<noteq> None \<longleftrightarrow> subscribers e = 0)"
  using reachable_entry_ok [OF assms] by (auto simp: entry_ok_def)

text \<open>
  C11. The spec's first testable property, "for all keys with subscriberCount > 0, at most
  one fetch is in flight", does not hold of its own design: in every reachable state in
  which an entry without subscribers is still waiting for its fetch when its retention
  has run out, evicting it and subscribing again leaves one subscriber and two requests
  for the key in flight. (By C2 the older response is then discarded.)
\<close>

theorem evict_resubscribe_two_in_flight:
  assumes "reachable dashboard_config s" "entries s k = Some e" "status e = Loading"
    "evict_at e = Some t" "t \<le> clock s"
  shows "map_option subscribers (entries (run dashboard_config s [Evict k, Subscribe k]) k) = Some 1 \<and>
         2 \<le> length (filter (\<lambda>kr. fst kr = k) (inflight (run dashboard_config s [Evict k, Subscribe k])))"
proof -
  obtain r where r: "(k, r) \<in> set (inflight s)" and sub: "subscribers e = 0"
    using reachable_entry_ok [OF assms(1,2)] assms(3,4) by (auto simp: entry_ok_def)
  have "filter (\<lambda>kr. fst kr = k) (inflight s) \<noteq> []"
    using r by (fastforce simp: filter_empty_conv)
  then have "1 \<le> length (filter (\<lambda>kr. fst kr = k) (inflight s))"
    by (simp add: Suc_le_eq)
  then show ?thesis using assms(2,4,5) sub
    by (simp add: evict_def subscribe_def start_def Let_def begin_fetch_def new_entry_def)
qed

theorem reachable_loading_pending_witness:
  "\<exists>r. enabled first_fetch (Respond ''portfolio'' r (Fetched 7)) \<and>
     (\<exists>e'. entries (cache_step dashboard_config first_fetch (Respond ''portfolio'' r (Fetched 7))) ''portfolio'' = Some e'
        \<and> status e' \<noteq> Loading)"
  by (rule reachable_loading_pending [OF first_fetch_reachable first_fetch_state(1)])
    (simp add: first_fetch_entry_def new_entry_def)

theorem evict_resubscribe_two_in_flight_witness:
  "map_option subscribers (entries (run dashboard_config evict_due [Evict ''portfolio'', Subscribe ''portfolio''])
      ''portfolio'') = Some 1 \<and>
   2 \<le> length (filter (\<lambda>kr. fst kr = ''portfolio'')
      (inflight (run dashboard_config evict_due [Evict ''portfolio'', Subscribe ''portfolio''])))"
  using evict_resubscribe_two_in_flight [OF evict_due_reachable evict_due_state(1)]
  by (simp add: new_entry_def evict_due_state(2))

theorem reachable_timers_consistent_witness:
  "polls first_fetch ''portfolio'' \<noteq> None \<and> evict_at first_fetch_entry = None"
  using reachable_timers_consistent [OF first_fetch_reachable first_fetch_state(1)]
  by (simp add: first_fetch_entry_def new_entry_def)

end
