(* ===== verification/CacheSettle.thy ===== *)
theory CacheSettle
  imports CacheInvariant "HOL-Library.While_Combinator"
begin

text \<open>
  The network's side of the spec's section 5, in which every issued request eventually
  completes. \<open>settle\<close> answers the requests in flight, the oldest first, each with the
  outcome \<open>answer k r\<close> the server gives it, until none is left. It is a
  \<open>while_option\<close> loop over the cache state, so a loop that never stops would be
  \<open>None\<close>; the lemmas below show that it stops from every reachable state, in a
  reachable state with nothing in flight and no entry Loading.
\<close>

definition answer_oldest ::
  "('k \<Rightarrow> nat \<Rightarrow> ('v, 'e) fetch_result) \<Rightarrow> cache_config \<Rightarrow> ('k, 'v, 'e) cache_state \<Rightarrow> ('k, 'v, 'e) cache_state" where
  "answer_oldest answer cfg s =
     (case inflight s of
        [] \<Rightarrow> s
      | (k, r) # _ \<Rightarrow> cache_step cfg s (Respond k r (answer k r)))"

definition settle ::
  "('k \<Rightarrow> nat \<Rightarrow> ('v, 'e) fetch_result) \<Rightarrow> cache_config \<Rightarrow> ('k, 'v, 'e) cache_state \<Rightarrow> ('k, 'v, 'e) cache_state option" where
  "settle answer cfg s = while_option (\<lambda>s. inflight s \<noteq> []) (answer_oldest answer cfg) s"

subsection \<open>Properties\<close>

lemma answer_oldest_progress:
  assumes "reachable cfg s" and "inflight s \<noteq> []"
  shows "reachable cfg (answer_oldest answer cfg s) \<and>
         length (inflight (answer_oldest answer cfg s)) < length (inflight s)"
proof -
  obtain k r rest where fl: "inflight s = (k, r) # rest"
    using assms(2) by (cases "inflight s") auto
  then have "enabled s (Respond k r (answer k r))" by simp
  then have "reachable cfg (cache_step cfg s (Respond k r (answer k r)))"
    by (rule reachable.step [OF assms(1)])
  moreover have "inflight (complete_fetch k r (answer k r) s) = rest"
    using fl by (simp add: complete_fetch_def Let_def split: option.split)
  ultimately show ?thesis using fl by (simp add: answer_oldest_def)
qed

text \<open>
  C36. Termination: from every reachable state the network settles: answering the
  requests in flight one by one stops, whatever the server answers, in a reachable state
  with no request in flight, so no entry is left Loading.
\<close>

theorem settle_returns:
  assumes "reachable cfg s"
  shows "\<exists>s'. settle answer cfg s = Some s' \<and> inflight s' = [] \<and> reachable cfg s' \<and>
              (\<forall>k e. entries s' k = Some e \<longrightarrow> status e \<noteq> Loading)"
proof -
  have "\<exists>t. while_option (\<lambda>s. inflight s \<noteq> []) (answer_oldest answer cfg) s = Some t"
    by (rule measure_while_option_Some [where P = "reachable cfg" and f = "\<lambda>s. length (inflight s)",
          OF answer_oldest_progress assms])
  then obtain s' where s': "settle answer cfg s = Some s'"
    unfolding settle_def by blast
  have "reachable cfg s'"
    by (rule while_option_rule [where P = "reachable cfg", OF conjunct1 [OF answer_oldest_progress]
          s' [unfolded settle_def] assms])
  moreover have "inflight s' = []"
    using while_option_stop [OF s' [unfolded settle_def]] by simp
  moreover have "\<forall>k e. entries s' k = Some e \<longrightarrow> status e \<noteq> Loading"
    using reachable_entry_ok [OF \<open>reachable cfg s'\<close>] \<open>inflight s' = []\<close>
    by (fastforce simp: entry_ok_def)
  ultimately show ?thesis using s' by blast
qed

theorem settle_returns_witness:
  "reachable dashboard_config first_fetch \<and>
   (\<exists>s'. settle (\<lambda>k r. Fetched 7) dashboard_config first_fetch = Some s' \<and> inflight s' = [] \<and>
         reachable dashboard_config s' \<and> (\<forall>k e. entries s' k = Some e \<longrightarrow> status e \<noteq> Loading))"
  using settle_returns [OF first_fetch_reachable, of "\<lambda>k r. Fetched 7"] first_fetch_reachable by blast

end
