(* ===== verification/JsRuntime.thy ===== *)
theory JsRuntime
  imports Prelude
begin

text \<open>
  The part of the JavaScript runtime that the dashboard's code relies on, written out so
  that the component models can state what the code does where HOL's total functions
  would hide it: a JS value (\<open>jsval\<close>, with numbers as \<open>jsnum\<close>: a finite real, NaN
  or an infinity), \<open>typeof\<close>, truthiness, and property access, which throws a
  TypeError on \<open>null\<close> and \<open>undefined\<close>. A computation that may throw returns
  \<open>'a js = js_error + 'a\<close>, with \<open>Inl\<close> the exception.

  Rounding of IEEE doubles is not modelled: a finite JS number is a real number.
  Strings are \<open>char list\<close>s; the dashboard's strings are ASCII, where UTF-16 length and
  list length agree.
\<close>

datatype jsnum = Fin real | NaN | PosInf | NegInf

datatype jsval =
    JUndefined
  | JNull
  | JBool bool
  | JNum jsnum
  | JStr string
  | JArr "jsval list"
  | JObj "(string, jsval) alist"
  | JFunction

datatype js_error = TypeError string

type_synonym 'a js = "js_error + 'a"

definition js_bind :: "'a js \<Rightarrow> ('a \<Rightarrow> 'b js) \<Rightarrow> 'b js" where
  "js_bind m f = (case m of Inl e \<Rightarrow> Inl e | Inr a \<Rightarrow> f a)"

text \<open>\<open>xs.map(f)\<close> with a callback that may throw: left to right, the first exception
  propagates.\<close>

fun js_map :: "('a \<Rightarrow> 'b js) \<Rightarrow> 'a list \<Rightarrow> 'b list js" where
  "js_map f [] = Inr []"
| "js_map f (x # xs) = js_bind (f x) (\<lambda>y. js_bind (js_map f xs) (\<lambda>ys. Inr (y # ys)))"

subsection \<open>typeof and truthiness\<close>

fun typeof :: "jsval \<Rightarrow> string" where
  "typeof JUndefined = ''undefined''"
| "typeof JNull = ''object''"
| "typeof (JBool b) = ''boolean''"
| "typeof (JNum n) = ''number''"
| "typeof (JStr s) = ''string''"
| "typeof (JArr xs) = ''object''"
| "typeof (JObj fs) = ''object''"
| "typeof JFunction = ''function''"

fun num_truthy :: "jsnum \<Rightarrow> bool" where
  "num_truthy (Fin x) = (x \<noteq> 0)"
| "num_truthy NaN = False"
| "num_truthy PosInf = True"
| "num_truthy NegInf = True"

text \<open>ToBoolean: \<open>undefined\<close>, \<open>null\<close>, \<open>false\<close>, \<open>0\<close>, \<open>NaN\<close> and \<open>""\<close> are falsy.\<close>

fun truthy :: "jsval \<Rightarrow> bool" where
  "truthy JUndefined = False"
| "truthy JNull = False"
| "truthy (JBool b) = b"
| "truthy (JNum n) = num_truthy n"
| "truthy (JStr s) = (s \<noteq> [])"
| "truthy (JArr xs) = True"
| "truthy (JObj fs) = True"
| "truthy JFunction = True"

abbreviation nullish :: "jsval \<Rightarrow> bool" where
  "nullish v \<equiv> v = JUndefined \<or> v = JNull"

subsection \<open>Property access\<close>

text \<open>An object's own property, \<open>undefined\<close> when absent.\<close>

definition obj_get :: "(string, jsval) alist \<Rightarrow> string \<Rightarrow> jsval" where
  "obj_get fs k = (case map_of fs k of Some v \<Rightarrow> v | None \<Rightarrow> JUndefined)"

text \<open>
  \<open>v.k\<close>: reading a property of \<open>undefined\<close> or \<open>null\<close> throws a TypeError; an object
  yields its own property or \<open>undefined\<close> (no prototype of a JSON object or of an RTK
  error object defines the names read here); strings and arrays have their
  \<open>length\<close>; other primitives have no properties of interest.
\<close>

fun get_prop :: "jsval \<Rightarrow> string \<Rightarrow> jsval js" where
  "get_prop JUndefined k = Inl (TypeError ''Cannot read properties of undefined'')"
| "get_prop JNull k = Inl (TypeError ''Cannot read properties of null'')"
| "get_prop (JStr s) k = Inr (if k = ''length'' then JNum (Fin (real (length s))) else JUndefined)"
| "get_prop (JArr xs) k = Inr (if k = ''length'' then JNum (Fin (real (length xs))) else JUndefined)"
| "get_prop (JObj fs) k = Inr (obj_get fs k)"
| "get_prop (JBool b) k = Inr JUndefined"
| "get_prop (JNum n) k = Inr JUndefined"
| "get_prop JFunction k = Inr JUndefined"

subsection \<open>Evaluation rules\<close>

lemma js_bind_simps [simp, js_simps]:
  "js_bind (Inl e) f = Inl e"
  "js_bind (Inr a) f = f a"
  by (simp_all add: js_bind_def)

lemma js_bind_eq_Inr:
  "js_bind m f = Inr b \<longleftrightarrow> (\<exists>a. m = Inr a \<and> f a = Inr b)"
  by (cases m) auto

lemma js_bind_eq_Inl:
  "js_bind m f = Inl e \<longleftrightarrow> m = Inl e \<or> (\<exists>a. m = Inr a \<and> f a = Inl e)"
  by (cases m) auto

lemma js_map_Inr_iff:
  "js_map f xs = Inr ys \<longleftrightarrow> list_all2 (\<lambda>x y. f x = Inr y) xs ys"
proof (induction xs arbitrary: ys)
  case (Cons x xs)
  then show ?case by (cases ys) (auto simp: js_bind_eq_Inr)
qed auto

lemma js_map_total:
  "(\<And>x. x \<in> set xs \<Longrightarrow> f x = Inr (g x)) \<Longrightarrow> js_map f xs = Inr (map g xs)"
  by (induction xs) auto

lemma js_map_throws_iff:
  "(\<exists>e. js_map f xs = Inl e) \<longleftrightarrow> (\<exists>x \<in> set xs. \<exists>e. f x = Inl e)"
proof (induction xs)
  case (Cons y ys)
  then show ?case by (cases "f y"; cases "js_map f ys") auto
qed simp

lemma obj_get_simps [simp, js_simps]:
  "obj_get [] k = JUndefined"
  "obj_get ((k', v) # fs) k = (if k' = k then v else obj_get fs k)"
  by (simp_all add: obj_get_def)

declare typeof.simps [js_simps] truthy.simps [js_simps] num_truthy.simps [js_simps]
  get_prop.simps [js_simps]

lemma get_prop_throws: "(\<exists>e. get_prop v k = Inl e) \<longleftrightarrow> nullish v"
  by (cases v) auto

lemma get_prop_object:
  "typeof v = ''object'' \<Longrightarrow> v \<noteq> JNull \<Longrightarrow> \<exists>r. get_prop v k = Inr r"
  by (cases v) auto

lemma truthy_not_nullish: "truthy v \<Longrightarrow> \<not> nullish v"
  by (cases v) auto

end
