(* ===== verification/JsNumber.thy ===== *)
theory JsNumber
  imports JsRuntime
begin

text \<open>
  The number operations the cards and the table apply to server data: division, which
  gives NaN or an infinity for a zero divisor; multiplication by a constant;
  \<open>Math.abs\<close> and \<open>Math.min\<close>, where NaN wins; \<open>Number.prototype.toFixed\<close>, which
  prints a number with a given count of fraction digits, rounding half up on the
  magnitude and keeping the sign (so a small negative number prints as \<open>"-0.00"\<close>);
  and \<open>parseFloat\<close>, which reads the longest decimal prefix of a string (optional
  whitespace, sign, digits, fraction, exponent, or \<open>Infinity\<close>) and is NaN when there
  is none.

  Finite numbers are reals: the rounding of IEEE doubles is not modelled, and
  \<open>toFixed\<close> of a magnitude of \<open>10^21\<close> or more, which JS prints in exponent notation,
  is printed with all digits here. Whitespace is the ASCII part of JS's
  \<open>StrWhiteSpaceChar\<close>.
\<close>

subsection \<open>Arithmetic\<close>

definition js_div :: "real \<Rightarrow> real \<Rightarrow> jsnum" where
  "js_div a b =
     (if b \<noteq> 0 then Fin (a / b) else if a > 0 then PosInf else if a < 0 then NegInf else NaN)"

fun js_scale :: "jsnum \<Rightarrow> real \<Rightarrow> jsnum" where
  "js_scale (Fin x) c = Fin (x * c)"
| "js_scale NaN c = NaN"
| "js_scale PosInf c = (if c > 0 then PosInf else if c < 0 then NegInf else NaN)"
| "js_scale NegInf c = (if c > 0 then NegInf else if c < 0 then PosInf else NaN)"

fun js_abs :: "jsnum \<Rightarrow> jsnum" where
  "js_abs (Fin x) = Fin \<bar>x\<bar>"
| "js_abs NaN = NaN"
| "js_abs PosInf = PosInf"
| "js_abs NegInf = PosInf"

text \<open>\<open>Math.min(x, c)\<close> for a finite bound \<open>c\<close>.\<close>

fun js_min :: "jsnum \<Rightarrow> real \<Rightarrow> jsnum" where
  "js_min (Fin x) c = Fin (min x c)"
| "js_min NaN c = NaN"
| "js_min PosInf c = Fin c"
| "js_min NegInf c = NegInf"

subsection \<open>Printing: toFixed\<close>

definition digit_char :: "nat \<Rightarrow> char" where
  "digit_char d = ''0123456789'' ! d"

fun nat_digits :: "nat \<Rightarrow> string" where
  "nat_digits n = (if n < 10 then [digit_char n] else nat_digits (n div 10) @ [digit_char (n mod 10)])"

text \<open>The integer \<open>n\<close> of toFixed: \<open>n / 10^f\<close> nearest to the magnitude, the larger on a tie.\<close>

definition fixed_units :: "real \<Rightarrow> nat \<Rightarrow> nat" where
  "fixed_units y f = nat \<lfloor>y * 10 ^ f + 1 / 2\<rfloor>"

text \<open>Digits of \<open>n\<close> with a point before the last \<open>f\<close>, padded to one leading digit.\<close>

definition fixed_string :: "nat \<Rightarrow> nat \<Rightarrow> string" where
  "fixed_string n f =
     (let m = nat_digits n in
      if f = 0 then m
      else let m0 = replicate (f + 1 - length m) CHR ''0'' @ m; k = length m0
           in take (k - f) m0 @ ''.'' @ drop (k - f) m0)"

fun toFixed :: "jsnum \<Rightarrow> nat \<Rightarrow> string" where
  "toFixed (Fin x) f = (if x < 0 then ''-'' else []) @ fixed_string (fixed_units \<bar>x\<bar> f) f"
| "toFixed NaN f = ''NaN''"
| "toFixed PosInf f = ''Infinity''"
| "toFixed NegInf f = ''-Infinity''"

subsection \<open>Parsing: parseFloat\<close>

definition is_digit :: "char \<Rightarrow> bool" where
  "is_digit c \<longleftrightarrow> 48 \<le> (of_char c :: nat) \<and> (of_char c :: nat) \<le> 57"

definition is_js_space :: "char \<Rightarrow> bool" where
  "is_js_space c \<longleftrightarrow> of_char c \<in> {9, 10, 11, 12, 13, 32 :: nat}"

definition digits_val :: "string \<Rightarrow> nat" where
  "digits_val ds = foldl (\<lambda>acc c. 10 * acc + (of_char c - 48)) 0 ds"

text \<open>Digits, an optional point and fraction digits, at least one digit in all: the value
  and the rest of the string.\<close>

definition parse_mantissa :: "string \<Rightarrow> (real \<times> string) option" where
  "parse_mantissa s =
     (let ip = takeWhile is_digit s; r = dropWhile is_digit s in
      case r of
        c # r' \<Rightarrow>
          if c = CHR ''.'' then
            (let fp = takeWhile is_digit r' in
             if ip = [] \<and> fp = [] then None
             else Some (real (digits_val ip) + real (digits_val fp) / 10 ^ length fp, dropWhile is_digit r'))
          else if ip = [] then None else Some (real (digits_val ip), r)
      | [] \<Rightarrow> if ip = [] then None else Some (real (digits_val ip), []))"

text \<open>An exponent part \<open>e\<close>/\<open>E\<close>, optional sign, digits; none when it is not well formed.\<close>

definition parse_exponent :: "string \<Rightarrow> int" where
  "parse_exponent r =
     (case r of
        c # r' \<Rightarrow>
          if c = CHR ''e'' \<or> c = CHR ''E'' then
            (let (sg, ds) = (case r' of
                               d # r'' \<Rightarrow> if d = CHR ''-'' then (-1, r'') else if d = CHR ''+'' then (1, r'') else (1, r')
                             | [] \<Rightarrow> (1, []));
                 es = takeWhile is_digit ds
             in if es = [] then 0 else sg * int (digits_val es))
          else 0
      | [] \<Rightarrow> 0)"

definition pow10 :: "int \<Rightarrow> real" where
  "pow10 e = (if e \<ge> 0 then 10 ^ nat e else 1 / 10 ^ nat (- e))"

definition parseFloat :: "string \<Rightarrow> jsnum" where
  "parseFloat s =
     (let t = dropWhile is_js_space s;
          (neg, u) = (case t of
                        c # u \<Rightarrow> if c = CHR ''-'' then (True, u) else if c = CHR ''+'' then (False, u) else (False, t)
                      | [] \<Rightarrow> (False, []))
      in if take 8 u = ''Infinity'' then (if neg then NegInf else PosInf)
         else case parse_mantissa u of
                None \<Rightarrow> NaN
              | Some (m, r) \<Rightarrow> Fin ((if neg then - m else m) * pow10 (parse_exponent r)))"

text \<open>The value toFixed denotes: the magnitude rounded half up to \<open>f\<close> digits, signed.\<close>

definition round_fixed :: "real \<Rightarrow> nat \<Rightarrow> real" where
  "round_fixed x f = (if x < 0 then -1 else 1) * real (fixed_units \<bar>x\<bar> f) / 10 ^ f"

subsection \<open>Properties: toFixed prints what parseFloat reads back\<close>

declare nat_digits.simps [simp del]

lemma digit_char_of_char: "d < 10 \<Longrightarrow> of_char (digit_char d) = 48 + d"
  by (auto simp: digit_char_def numeral_eq_Suc less_Suc_eq)

lemma is_digit_digit_char [simp]: "d < 10 \<Longrightarrow> is_digit (digit_char d)"
  by (simp add: is_digit_def digit_char_of_char)

lemma nat_digits_not_Nil [simp]: "nat_digits n \<noteq> []"
  by (simp only: nat_digits.simps [of n]) simp

lemma nat_digits_digits: "c \<in> set (nat_digits n) \<Longrightarrow> is_digit c"
proof (induction n rule: nat_digits.induct)
  case (1 n)
  then show ?case
    by (cases "n < 10") (auto simp only: nat_digits.simps [of n] if_True if_False set_append, auto)
qed

lemma foldl_digits_acc:
  "foldl (\<lambda>acc c. 10 * acc + d c) (a :: nat) ys = a * 10 ^ length ys + foldl (\<lambda>acc c. 10 * acc + d c) 0 ys"
proof (induction ys arbitrary: a)
  case (Cons y ys)
  have "foldl (\<lambda>acc c. 10 * acc + d c) a (y # ys) = (10 * a + d y) * 10 ^ length ys + foldl (\<lambda>acc c. 10 * acc + d c) 0 ys"
    by (simp only: foldl_Cons Cons.IH [of "10 * a + d y"])
  moreover have "foldl (\<lambda>acc c. 10 * acc + d c) 0 (y # ys) = d y * 10 ^ length ys + foldl (\<lambda>acc c. 10 * acc + d c) 0 ys"
    by (simp only: foldl_Cons Cons.IH [of "10 * 0 + d y"]) simp
  ultimately show ?case by (simp add: distrib_right)
qed simp

lemma digits_val_append: "digits_val (xs @ ys) = digits_val xs * 10 ^ length ys + digits_val ys"
  unfolding digits_val_def foldl_append by (rule foldl_digits_acc)

lemma digits_val_zeros [simp]: "digits_val (replicate k CHR ''0'' @ xs) = digits_val xs"
proof -
  have "digits_val (replicate k CHR ''0'') = 0"
    by (induction k) (simp_all add: digits_val_def)
  then show ?thesis by (simp add: digits_val_append)
qed

lemma digits_val_nat_digits [simp]: "digits_val (nat_digits n) = n"
proof (induction n rule: nat_digits.induct)
  case (1 n)
  show ?case
  proof (cases "n < 10")
    case True
    then show ?thesis by (simp add: nat_digits.simps [of n] digits_val_def digit_char_of_char)
  next
    case False
    then have "digits_val (nat_digits n) = (n div 10) * 10 + n mod 10"
      using 1 by (simp add: nat_digits.simps [of n] digits_val_append digit_char_of_char)
        (simp add: digits_val_def digit_char_of_char)
    then show ?thesis by simp
  qed
qed

lemma digits_of_zeros_nat_digits:
  "c \<in> set (replicate k CHR ''0'' @ nat_digits n) \<Longrightarrow> is_digit c"
  using nat_digits_digits [of c n] by (auto simp: is_digit_def)

lemma fixed_string_shape:
  assumes "0 < f"
  obtains ip fp where "fixed_string n f = ip @ CHR ''.'' # fp" "ip \<noteq> []" "length fp = f"
    "\<forall>c\<in>set ip. is_digit c" "\<forall>c\<in>set fp. is_digit c"
    "digits_val ip * 10 ^ f + digits_val fp = n"
proof -
  define m0 where "m0 = replicate (f + 1 - length (nat_digits n)) CHR ''0'' @ nat_digits n"
  define j where "j = length m0 - f"
  have len: "f < length m0" by (simp add: m0_def)
  have dig: "\<forall>c\<in>set m0. is_digit c" unfolding m0_def using digits_of_zeros_nat_digits by blast
  have fs: "fixed_string n f = take j m0 @ CHR ''.'' # drop j m0"
    using assms by (simp add: fixed_string_def m0_def j_def Let_def)
  have lf: "length (drop j m0) = f" using len by (simp add: j_def)
  have ne: "take j m0 \<noteq> []" using len by (cases m0) (auto simp: j_def)
  have d1: "\<forall>c\<in>set (take j m0). is_digit c" using dig by (auto dest: in_set_takeD)
  have d2: "\<forall>c\<in>set (drop j m0). is_digit c" using dig by (auto dest: in_set_dropD)
  have "digits_val m0 = n" by (simp add: m0_def)
  then have val: "digits_val (take j m0) * 10 ^ f + digits_val (drop j m0) = n"
    using digits_val_append [of "take j m0" "drop j m0"] lf by simp
  show thesis by (rule that [OF fs ne lf d1 d2 val])
qed

lemma parse_mantissa_digits:
  assumes "ip \<noteq> []" and "\<forall>c\<in>set ip. is_digit c"
  shows "parse_mantissa ip = Some (real (digits_val ip), [])"
proof -
  have tw: "takeWhile is_digit ip = ip" and dw: "dropWhile is_digit ip = []"
    using assms(2) by (simp_all add: takeWhile_eq_all_conv dropWhile_eq_Nil_conv)
  show ?thesis using assms(1) by (simp add: parse_mantissa_def tw dw)
qed

lemma parse_mantissa_point:
  assumes "ip \<noteq> []" and "\<forall>c\<in>set ip. is_digit c" and "\<forall>c\<in>set fp. is_digit c"
  shows "parse_mantissa (ip @ CHR ''.'' # fp)
           = Some (real (digits_val ip) + real (digits_val fp) / 10 ^ length fp, [])"
proof -
  have dot: "\<not> is_digit CHR ''.''" by (simp add: is_digit_def)
  have tw: "takeWhile is_digit fp = fp" and dw: "dropWhile is_digit fp = []"
    using assms(3) by (simp_all add: takeWhile_eq_all_conv dropWhile_eq_Nil_conv)
  show ?thesis
    using assms dot by (simp add: parse_mantissa_def takeWhile_append2 dropWhile_append2 tw dw)
qed

lemma parse_mantissa_fixed_string: "parse_mantissa (fixed_string n f) = Some (real n / 10 ^ f, [])"
proof (cases "f = 0")
  case True
  then show ?thesis
    using parse_mantissa_digits [of "nat_digits n"] nat_digits_digits [of _ n]
    by (simp add: fixed_string_def)
next
  case False
  then obtain ip fp where fs: "fixed_string n f = ip @ CHR ''.'' # fp" "ip \<noteq> []" "length fp = f"
    "\<forall>c\<in>set ip. is_digit c" "\<forall>c\<in>set fp. is_digit c"
    "digits_val ip * 10 ^ f + digits_val fp = n"
    using fixed_string_shape [of f n] by auto
  have "real n = real (digits_val ip * 10 ^ f + digits_val fp)" using fs(6) by simp
  then have "real (digits_val ip) + real (digits_val fp) / 10 ^ f = real n / 10 ^ f"
    by (simp add: field_simps)
  then show ?thesis
    using parse_mantissa_point [OF fs(2,4,5)] by (simp add: fs(1,3))
qed

lemma fixed_string_hd: "\<exists>c r. fixed_string n f = c # r \<and> is_digit c"
proof (cases "f = 0")
  case True
  then show ?thesis
    using nat_digits_digits [of _ n] nat_digits_not_Nil [of n]
    by (cases "nat_digits n") (auto simp: fixed_string_def)
next
  case False
  then obtain ip fp where "fixed_string n f = ip @ CHR ''.'' # fp" "ip \<noteq> []" "\<forall>c\<in>set ip. is_digit c"
    using fixed_string_shape [of f n] by blast
  then show ?thesis by (cases ip) auto
qed

lemma parseFloat_digit_start:
  assumes "is_digit c"
  shows "parseFloat (c # r) = (case parse_mantissa (c # r) of None \<Rightarrow> NaN
                                 | Some (m, r') \<Rightarrow> Fin (m * pow10 (parse_exponent r')))"
    and "parseFloat (CHR ''-'' # c # r) = (case parse_mantissa (c # r) of None \<Rightarrow> NaN
                                 | Some (m, r') \<Rightarrow> Fin (- m * pow10 (parse_exponent r')))"
proof -
  have "\<not> is_js_space c" "c \<noteq> CHR ''-''" "c \<noteq> CHR ''+''" "c \<noteq> CHR ''I''"
    using assms by (auto simp: is_digit_def is_js_space_def)
  then show "parseFloat (c # r) = (case parse_mantissa (c # r) of None \<Rightarrow> NaN
                                 | Some (m, r') \<Rightarrow> Fin (m * pow10 (parse_exponent r')))"
    and "parseFloat (CHR ''-'' # c # r) = (case parse_mantissa (c # r) of None \<Rightarrow> NaN
                                 | Some (m, r') \<Rightarrow> Fin (- m * pow10 (parse_exponent r')))"
    by (simp_all add: parseFloat_def is_js_space_def split: option.split)
qed

lemma parseFloat_digits:
  assumes "ds \<noteq> []" and "\<forall>c\<in>set ds. is_digit c"
  shows "parseFloat ds = Fin (real (digits_val ds))"
proof -
  obtain c r where cr: "ds = c # r" using assms(1) by (cases ds) auto
  have pe: "parse_exponent [] = 0" "pow10 0 = 1" by (simp_all add: parse_exponent_def pow10_def)
  show ?thesis
    using parseFloat_digit_start(1) [of c r] parse_mantissa_digits [OF assms] assms(2)
    by (simp add: cr pe)
qed

lemma parseFloat_toFixed: "parseFloat (toFixed (Fin x) f) = Fin (round_fixed x f)"
proof -
  obtain c r where cr: "fixed_string (fixed_units \<bar>x\<bar> f) f = c # r" "is_digit c"
    using fixed_string_hd by blast
  have pe: "parse_exponent [] = 0" "pow10 0 = 1" by (simp_all add: parse_exponent_def pow10_def)
  show ?thesis
    using parse_mantissa_fixed_string [of "fixed_units \<bar>x\<bar> f" f] parseFloat_digit_start [OF cr(2), of r]
    by (simp add: cr(1) pe round_fixed_def)
qed

lemma toFixed_hd: "\<exists>c r. toFixed n f = c # r \<and> c \<noteq> CHR ''N'' \<or> toFixed n f = ''NaN''"
proof (cases n)
  case (Fin x)
  obtain c r where "fixed_string (fixed_units \<bar>x\<bar> f) f = c # r" "is_digit c"
    using fixed_string_hd by blast
  then show ?thesis using Fin by (auto simp: is_digit_def)
qed simp_all

lemma toFixed_not_na: "toFixed n f \<noteq> [] \<and> toFixed n f \<noteq> ''N/A''"
  using toFixed_hd [of n f] by auto

end
