(* ===== verification/Format.thy ===== *)
theory Format
  imports JsNumber
begin

text \<open>
  \<open>src/src/utils/format.utiils.ts\<close>: \<open>formatCurrency\<close>, the one formatting helper,
  which every amount on the cards and in the tables goes through. It is
  \<open>Intl.NumberFormat("en-IN", {style: "currency", currency: "INR",
  minimumFractionDigits: 2}).format\<close>: the magnitude rounded half away from zero to two
  fraction digits (INR has two currency digits, so the maximum is two as well), the
  integer digits grouped the Indian way (the last three, then pairs:
  \<open>12,34,567\<close>), the rupee sign U+20B9 before the digits and a minus sign before
  the rupee sign for a negative number (a negative amount that rounds to zero
  prints as \<open>-\<close>\<open>0.00\<close>, as ECMA-402's default sign display shows negative zero).
  Strings are byte lists, so the rupee sign is its three UTF-8 bytes. The argument is
  a number of the JSON response, so finite: a \<open>real\<close>.
\<close>

definition rupee_sign :: string where
  "rupee_sign = [CHR 0xE2, CHR 0x82, CHR 0xB9]"

text \<open>Groups of \<open>n\<close> digits from the right, separated by commas: pairs for the digits
  of en-IN before the last three, triples for en-US. (No group size is zero; the guard
  only makes the recursion total.)\<close>

function group_digits :: "nat \<Rightarrow> string \<Rightarrow> string" where
  "group_digits n ds =
     (if n = 0 \<or> length ds \<le> n then ds
      else group_digits n (take (length ds - n) ds) @ CHR '','' # drop (length ds - n) ds)"
  by pat_completeness auto
termination by (relation "measure (\<lambda>(n, ds). length ds)") auto

definition group_indian :: "string \<Rightarrow> string" where
  "group_indian ds =
     (if length ds \<le> 3 then ds else group_digits 2 (take (length ds - 3) ds) @ CHR '','' # drop (length ds - 3) ds)"

definition formatCurrency :: "real \<Rightarrow> string" where
  "formatCurrency v =
     (let s = fixed_string (fixed_units \<bar>v\<bar> 2) 2; k = length s - 3
      in (if v < 0 then ''-'' else []) @ rupee_sign @ group_indian (take k s) @ drop k s)"

text \<open>Reading an amount back: drop the grouping commas and the rupee sign.\<close>

definition strip_currency :: "string \<Rightarrow> string" where
  "strip_currency s = filter (\<lambda>c. c \<noteq> CHR '','' \<and> c \<notin> set rupee_sign) s"

subsection \<open>Grouping and reading back\<close>

declare group_digits.simps [simp del]

lemma filter_group_digits:
  "\<forall>c\<in>set ds. P c \<Longrightarrow> \<not> P CHR '','' \<Longrightarrow> filter P (group_digits n ds) = ds"
proof (induction n ds rule: group_digits.induct)
  case (1 n ds)
  show ?case
  proof (cases "n = 0 \<or> length ds \<le> n")
    case True
    then show ?thesis using "1.prems" by (simp add: group_digits.simps [of n ds])
  next
    case False
    have "filter P (take (length ds - n) ds) = take (length ds - n) ds"
      using "1.prems" by (auto simp: filter_id_conv dest: in_set_takeD)
    then have "filter P (group_digits n (take (length ds - n) ds)) = take (length ds - n) ds"
      using 1 False by (auto dest: in_set_takeD)
    moreover have "filter P (drop (length ds - n) ds) = drop (length ds - n) ds"
      using "1.prems" by (auto simp: filter_id_conv dest: in_set_dropD)
    ultimately show ?thesis
      using False "1.prems"(2) by (simp add: group_digits.simps [of n ds])
  qed
qed

lemma count_group_digits:
  "0 < n \<Longrightarrow> CHR '','' \<notin> set ds \<Longrightarrow>
   length (filter (\<lambda>c. c = CHR '','') (group_digits n ds)) = (length ds - 1) div n"
proof (induction n ds rule: group_digits.induct)
  case (1 n ds)
  show ?case
  proof (cases "length ds \<le> n")
    case True
    then have "filter (\<lambda>c. c = CHR '','') ds = []" using "1.prems" by (auto simp: filter_empty_conv)
    then show ?thesis using True "1.prems"(1) by (simp add: group_digits.simps [of n ds] div_less)
  next
    case False
    have ih: "length (filter (\<lambda>c. c = CHR '','') (group_digits n (take (length ds - n) ds)))
              = (length ds - n - 1) div n"
      using 1 False by (auto dest: in_set_takeD)
    have "filter (\<lambda>c. c = CHR '','') (drop (length ds - n) ds) = []"
      using "1.prems" by (auto simp: filter_empty_conv dest: in_set_dropD)
    moreover have "(length ds - n - 1) div n + 1 = (length ds - 1) div n"
      using False "1.prems"(1) le_div_geq [of n "length ds - 1"] by simp
    ultimately show ?thesis
      using False ih "1.prems"(1) by (simp add: group_digits.simps [of n ds])
  qed
qed

lemma filter_group_indian:
  "\<forall>c\<in>set ds. P c \<Longrightarrow> \<not> P CHR '','' \<Longrightarrow> filter P (group_indian ds) = ds"
proof (cases "length ds \<le> 3")
  case False
  assume ok: "\<forall>c\<in>set ds. P c" and nc: "\<not> P CHR '',''"
  have "filter P (group_digits 2 (take (length ds - 3) ds)) = take (length ds - 3) ds"
    using ok nc by (intro filter_group_digits) (auto dest: in_set_takeD)
  moreover have "filter P (drop (length ds - 3) ds) = drop (length ds - 3) ds"
    using ok by (auto simp: filter_id_conv dest: in_set_dropD)
  ultimately show ?thesis using False nc by (simp add: group_indian_def)
qed (simp add: group_indian_def filter_id_conv)

lemma count_group_indian:
  "CHR '','' \<notin> set ds \<Longrightarrow> length (filter (\<lambda>c. c = CHR '','') (group_indian ds)) = (length ds - 2) div 2"
proof (cases "length ds \<le> 3")
  case True
  moreover assume "CHR '','' \<notin> set ds"
  then have "filter (\<lambda>c. c = CHR '','') ds = []" by (auto simp: filter_empty_conv)
  ultimately show ?thesis by (simp add: group_indian_def)
next
  case False
  assume nc: "CHR '','' \<notin> set ds"
  then have "filter (\<lambda>c. c = CHR '','') (drop (length ds - 3) ds) = []"
    by (auto simp: filter_empty_conv dest: in_set_dropD)
  moreover have "CHR '','' \<notin> set (take (length ds - 3) ds)" using nc by (auto dest: in_set_takeD)
  ultimately show ?thesis
    using False count_group_digits [of 2 "take (length ds - 3) ds"] by (simp add: group_indian_def)
qed

lemma fixed_string_chars: "c \<in> set (fixed_string n f) \<Longrightarrow> is_digit c \<or> c = CHR ''.''"
proof -
  have "set (fixed_string n f) \<subseteq> set (replicate (f + 1 - length (nat_digits n)) CHR ''0'' @ nat_digits n) \<union> {CHR ''.''}"
    by (auto simp: fixed_string_def Let_def dest: in_set_takeD in_set_dropD)
  then show "c \<in> set (fixed_string n f) \<Longrightarrow> is_digit c \<or> c = CHR ''.''"
    using digits_of_zeros_nat_digits by blast
qed

lemma strip_formatCurrency: "strip_currency (formatCurrency v) = toFixed (Fin v) 2"
proof -
  define s where "s = fixed_string (fixed_units \<bar>v\<bar> 2) 2"
  define P where "P c \<longleftrightarrow> c \<noteq> CHR '','' \<and> c \<notin> set rupee_sign" for c
  have ok: "\<forall>c\<in>set s. P c"
    using fixed_string_chars by (fastforce simp: s_def P_def is_digit_def rupee_sign_def)
  have "filter P (group_indian (take (length s - 3) s)) = take (length s - 3) s"
    by (rule filter_group_indian) (use ok in \<open>auto simp: P_def dest: in_set_takeD\<close>)
  moreover have "filter P (drop (length s - 3) s) = drop (length s - 3) s"
    using ok by (auto simp: filter_id_conv dest: in_set_dropD)
  moreover have "filter P rupee_sign = []" "filter P ''-'' = ''-''"
    by (simp_all add: P_def rupee_sign_def)
  ultimately show ?thesis
    by (simp add: strip_currency_def formatCurrency_def Let_def flip: s_def P_def)
qed

text \<open>
  C27. Round trip: the amount \<open>formatCurrency\<close> prints, read back with the grouping commas
  and the rupee sign removed, is the number rounded half up to two places (paise):
  the formatting loses exactly the rounding and nothing else.
\<close>

theorem formatCurrency_roundtrip: "parseFloat (strip_currency (formatCurrency v)) = Fin (round_fixed v 2)"
  unfolding strip_formatCurrency by (rule parseFloat_toFixed)

text \<open>
  C28. Shape of every formatted amount: an optional minus, the rupee sign, the integer
  digits with Indian grouping (one comma per two digits above the last three), a
  point and exactly two fraction digits; the digits are those of the amount in paise,
  rounded half up.
\<close>

theorem formatCurrency_shape:
  "\<exists>g fr. formatCurrency v = (if v < 0 then ''-'' else []) @ rupee_sign @ g @ ''.'' @ fr \<and>
     length fr = 2 \<and> (\<forall>c\<in>set fr. is_digit c) \<and>
     g \<noteq> [] \<and> (\<forall>c\<in>set (filter (\<lambda>c. c \<noteq> CHR '','') g). is_digit c) \<and>
     length (filter (\<lambda>c. c = CHR '','') g) = (length (filter (\<lambda>c. c \<noteq> CHR '','') g) - 2) div 2 \<and>
     digits_val (filter (\<lambda>c. c \<noteq> CHR '','') g) * 100 + digits_val fr = fixed_units \<bar>v\<bar> 2"
proof -
  obtain ip fp where s: "fixed_string (fixed_units \<bar>v\<bar> 2) 2 = ip @ CHR ''.'' # fp" "ip \<noteq> []"
    "length fp = 2" "\<forall>c\<in>set ip. is_digit c" "\<forall>c\<in>set fp. is_digit c"
    "digits_val ip * 10 ^ 2 + digits_val fp = fixed_units \<bar>v\<bar> 2"
    using fixed_string_shape [of 2 "fixed_units \<bar>v\<bar> 2"] by auto
  have nc: "CHR '','' \<notin> set ip" using s(4) by (auto simp: is_digit_def)
  have g: "filter (\<lambda>c. c \<noteq> CHR '','') (group_indian ip) = ip"
    using s(4) by (intro filter_group_indian) (auto simp: is_digit_def)
  have "formatCurrency v = (if v < 0 then ''-'' else []) @ rupee_sign @ group_indian ip @ ''.'' @ fp"
    using s(1,3) by (simp add: formatCurrency_def Let_def)
  moreover have "group_indian ip \<noteq> []" using g s(2) by auto
  ultimately show ?thesis
    using s g count_group_indian [OF nc] by (intro exI [of _ "group_indian ip"] exI [of _ fp]) simp
qed

theorem formatCurrency_shape_witness:
  "\<exists>g fr. formatCurrency (-1234.5) = ''-'' @ rupee_sign @ g @ ''.'' @ fr \<and> length fr = 2 \<and>
     (\<forall>c\<in>set fr. is_digit c) \<and> length (filter (\<lambda>c. c = CHR '','') g) = (length (filter (\<lambda>c. c \<noteq> CHR '','') g) - 2) div 2 \<and>
     digits_val (filter (\<lambda>c. c \<noteq> CHR '','') g) * 100 + digits_val fr = 123450"
proof -
  have "fixed_units \<bar>-1234.5\<bar> 2 = 123450" by (simp add: fixed_units_def)
  then show ?thesis using formatCurrency_shape [of "-1234.5"] by auto
qed

end
