(* ===== verification/ErrorUtils.thy ===== *)
theory ErrorUtils
  imports JsRuntime
begin

text \<open>
  \<open>src/src/utils/error.utils.ts\<close>: \<open>getErrorFromException\<close>, which turns whatever was
  thrown or returned as an error into the message shown in the dashboard's error banner.
  The model keeps the code's if/else-if chain and its property reads; a read of a
  property of \<open>null\<close> or \<open>undefined\<close> is the TypeError the code would throw, and a
  value of any other \<open>typeof\<close> yields \<open>undefined\<close>, the function's implicit return.
\<close>

definition default_error_message :: string where
  "default_error_message = ''Something Went Wrong''"

definition getErrorFromException :: "jsval \<Rightarrow> jsval js" where
  "getErrorFromException e =
     (if typeof e = ''string'' then Inr e
      else if typeof e = ''object'' then
        js_bind (get_prop e ''message'') (\<lambda>m.
        if truthy m then Inr m
        else js_bind (get_prop e ''data'') (\<lambda>d.
          if truthy d then
            js_bind (get_prop d ''message'') (\<lambda>dm.
              Inr (if truthy dm then dm else JStr default_error_message))
          else js_bind (get_prop e ''response'') (\<lambda>r.
            if truthy r then js_bind (get_prop r ''data'') (\<lambda>rd. get_prop rd ''error'')
            else Inr (JStr default_error_message))))
      else Inr JUndefined)"

text \<open>The branches of the chain, one equation each, used by the proofs below.\<close>

lemma getErrorFromException_string [simp]:
  "getErrorFromException (JStr s) = Inr (JStr s)"
  by (simp add: getErrorFromException_def)

lemma getErrorFromException_null [simp]:
  "getErrorFromException JNull = Inl (TypeError ''Cannot read properties of null'')"
  by (simp add: getErrorFromException_def)

lemma getErrorFromException_not_object:
  "typeof e \<noteq> ''string'' \<Longrightarrow> typeof e \<noteq> ''object'' \<Longrightarrow> getErrorFromException e = Inr JUndefined"
  by (simp add: getErrorFromException_def)

lemma getErrorFromException_obj:
  "getErrorFromException (JObj fs) =
     (let m = obj_get fs ''message'' in
      if truthy m then Inr m
      else let d = obj_get fs ''data'' in
        if truthy d then
          js_bind (get_prop d ''message'') (\<lambda>dm. Inr (if truthy dm then dm else JStr default_error_message))
        else let r = obj_get fs ''response'' in
          if truthy r then js_bind (get_prop r ''data'') (\<lambda>rd. get_prop rd ''error'')
          else Inr (JStr default_error_message))"
  by (simp add: getErrorFromException_def Let_def obj_get_def)

text \<open>
  C9. \<open>getErrorFromException\<close> throws exactly on \<open>null\<close> (\<open>typeof null\<close> is
  \<open>"object"\<close>) and on an object whose \<open>message\<close> and \<open>data\<close> are falsy and whose
  truthy \<open>response\<close> has a nullish \<open>data\<close>: every other value is turned into a result.
\<close>

theorem getErrorFromException_throws:
  "(\<exists>err. getErrorFromException e = Inl err) \<longleftrightarrow>
     e = JNull \<or>
     (\<exists>fs. e = JObj fs \<and> \<not> truthy (obj_get fs ''message'') \<and> \<not> truthy (obj_get fs ''data'') \<and>
        truthy (obj_get fs ''response'') \<and>
        (\<exists>rd. get_prop (obj_get fs ''response'') ''data'' = Inr rd \<and> nullish rd))"
proof (cases e)
  case (JObj fs)
  show ?thesis
    using truthy_not_nullish [of "obj_get fs ''response''"] truthy_not_nullish [of "obj_get fs ''data''"]
    by (cases "obj_get fs ''response''"; cases "obj_get fs ''data''")
       (auto simp: JObj getErrorFromException_obj Let_def js_bind_eq_Inl get_prop_throws)
qed (simp_all add: getErrorFromException_def)

theorem getErrorFromException_throws_witness:
  "\<exists>err. getErrorFromException (JObj [(''response'', JObj [(''status'', JNum (Fin 500))])]) = Inl err"
  using getErrorFromException_throws [of "JObj [(''response'', JObj [(''status'', JNum (Fin 500))])]"]
  by simp

text \<open>
  C10. The chain is an if/else-if on the presence of \<open>data\<close>, not on
  \<open>data.message\<close>: an error object whose \<open>message\<close> is falsy and whose
  \<open>data\<close> is truthy but has no truthy \<open>message\<close> gets the generic message,
  whatever its \<open>response\<close> holds, also when \<open>response.data.error\<close> carries a
  message; the precedence order of the error taxonomy falls through to that rule 4.
\<close>

theorem getErrorFromException_data_shadows_response:
  assumes "\<not> truthy (obj_get fs ''message'')" "truthy (obj_get fs ''data'')"
    "\<forall>m. get_prop (obj_get fs ''data'') ''message'' = Inr m \<longrightarrow> \<not> truthy m"
  shows "getErrorFromException (JObj fs) = Inr (JStr default_error_message)"
proof -
  obtain m where "get_prop (obj_get fs ''data'') ''message'' = Inr m"
    using assms(2) by (cases "obj_get fs ''data''") auto
  then show ?thesis using assms by (simp add: getErrorFromException_obj Let_def)
qed

theorem getErrorFromException_data_shadows_response_witness:
  "getErrorFromException
     (JObj [(''data'', JObj [(''error'', JStr ''bad'')]),
            (''response'', JObj [(''data'', JObj [(''error'', JStr ''z'')])])])
   = Inr (JStr ''Something Went Wrong'')"
  using getErrorFromException_data_shadows_response
    [of "[(''data'', JObj [(''error'', JStr ''bad'')]), (''response'', JObj [(''data'', JObj [(''error'', JStr ''z'')])])]"]
  by (simp add: default_error_message_def)

end
