(* ===== verification/ApiTypes.thy ===== *)
theory ApiTypes
  imports JsRuntime
begin

text \<open>
  \<open>src/src/api/api-types.ts\<close>: the shape of the \<open>GET /api/portfolio\<close> response. A
  \<open>Stock\<close> is a record of display fields; \<open>SectorSummary\<close> and \<open>PortfolioSummary\<close> are
  the same interface twice (four identical fields), so both are one record here, named
  by two type synonyms, as TypeScript's structural typing makes them one type. The
  response is an object whose values are either a sector (\<open>{stocks, summary}\<close>) or a
  summary: a datatype with those two constructors, and the object an association list
  in the order \<open>Object.entries\<close> yields its keys (sector names are not array indices,
  so insertion order).

  Numbers read from JSON are finite: they are \<open>real\<close>. \<open>gainLossColor\<close> is the union
  \<open>"green" | "red"\<close>.
\<close>

datatype gain_loss_color = Green | Red

record Stock =
  particulars :: string
  symbol :: string
  purchasePrice :: real
  quantity :: real
  investment :: real
  portfolioPercentage :: string
  exchange :: string
  cmp :: real
  presentValue :: real
  gainLoss :: real
  gainLossColor :: gain_loss_color
  peRatio :: real
  latestEarnings :: real

record Summary =
  totalInvestment :: real
  totalPresentValue :: real
  totalGainLoss :: real
  summaryColor :: gain_loss_color

type_synonym SectorSummary = Summary
type_synonym PortfolioSummary = Summary

datatype portfolio_entry =
    SectorData "Stock list" SectorSummary
  | SummaryData PortfolioSummary

type_synonym PortfolioResponse = "(string, portfolio_entry) alist"

text \<open>The key under which the server puts the overall summary.\<close>

definition summary_key :: string where
  "summary_key = ''portfolioSummary''"

text \<open>
  What the server promises and the client relies on without checking: keys are
  distinct, the reserved key holds a summary, and every other key holds a sector.
\<close>

definition wf_response :: "PortfolioResponse \<Rightarrow> bool" where
  "wf_response d \<longleftrightarrow> distinct (map fst d) \<and>
     list_all (\<lambda>(k, v). case v of SummaryData s \<Rightarrow> k = summary_key | SectorData st sm \<Rightarrow> k \<noteq> summary_key) d"

end
