(* ===== verification/PortfolioTable.thy ===== *)
theory PortfolioTable
  imports ErrorUtils ApiTypes QueryCache
begin

text \<open>
  \<open>src/src/components/portforlio-table.tsx\<close>: the dashboard page. It reads
  \<open>{data, error, isLoading}\<close> from the query hook (\<open>query_view\<close> of the cache model, with
  the response as data and RTK Query's error object, a JS value, as error) and renders
  one of four screens, in the code's order: loading, error (with the message of
  \<open>getErrorFromException\<close>), no data, and the dashboard. The dashboard splits the
  response into the sectors (every key but \<open>portfolioSummary\<close>, in order) and the
  summary, shows the summary card when the summary is there, the two chart tabs on the
  whole response, and one section per sector: an empty-sector card when it has no
  stocks, else its summary card and stock table. A value under a sector key that is
  not a sector has no \<open>stocks\<close>, and reading its \<open>length\<close> throws, which aborts the
  render: rendering returns \<open>dashboard_view js\<close>.

  The page's own state is \<open>lastUpdated\<close>, set by an effect whenever \<open>data\<close> changes
  to a defined value. RTK Query shares structure between results, so a refetch that
  returns an equal response yields the same reference and does not re-run the effect:
  \<open>data\<close> changes exactly when the response changes.
\<close>

subsection \<open>The rendered screens\<close>

datatype sector_section =
    EmptySectorCard string
  | SectorSection string SectorSummary "Stock list"

datatype dashboard_view =
    LoadingView
  | ErrorView jsval
  | NoDataView
  | ReadyView "portfolio_entry option" PortfolioResponse "sector_section list"

fun section_name :: "sector_section \<Rightarrow> string" where
  "section_name (EmptySectorCard n) = n"
| "section_name (SectorSection n s st) = n"

subsection \<open>Rendering\<close>

definition dashboard_sectors :: "PortfolioResponse \<Rightarrow> PortfolioResponse" where
  "dashboard_sectors d = filter (\<lambda>(k, v). k \<noteq> summary_key) d"

definition dashboard_summary :: "PortfolioResponse \<Rightarrow> portfolio_entry option" where
  "dashboard_summary d = map_of d summary_key"

text \<open>One sector of \<open>sectors.map\<close>: the value is cast to \<open>{stocks, summary}\<close>.\<close>

fun render_sector :: "string \<times> portfolio_entry \<Rightarrow> sector_section js" where
  "render_sector (n, SectorData stocks summary) =
     Inr (if stocks = [] then EmptySectorCard n else SectorSection n summary stocks)"
| "render_sector (n, SummaryData s) =
     Inl (TypeError ''Cannot read properties of undefined (reading 'length')'')"

definition render_ready :: "PortfolioResponse \<Rightarrow> dashboard_view js" where
  "render_ready d =
     js_bind (js_map render_sector (dashboard_sectors d))
       (\<lambda>sections. Inr (ReadyView (dashboard_summary d) d sections))"

definition render_dashboard :: "(PortfolioResponse, jsval) query_view \<Rightarrow> dashboard_view js" where
  "render_dashboard q =
     (if qv_isLoading q then Inr LoadingView
      else case qv_error q of
        Some err \<Rightarrow>
          if truthy err then js_bind (getErrorFromException err) (\<lambda>m. Inr (ErrorView m))
          else (case qv_data q of None \<Rightarrow> Inr NoDataView | Some d \<Rightarrow> render_ready d)
      | None \<Rightarrow> (case qv_data q of None \<Rightarrow> Inr NoDataView | Some d \<Rightarrow> render_ready d))"

subsection \<open>The last-updated effect\<close>

record page_state =
  last_updated :: ms
  seen_data :: "PortfolioResponse option"

text \<open>Mount: \<open>useState(new Date())\<close>, then the effect's first run.\<close>

definition mount_page :: "ms \<Rightarrow> PortfolioResponse option \<Rightarrow> page_state" where
  "mount_page now data = \<lparr>last_updated = now, seen_data = data\<rparr>"

text \<open>A later render: the effect runs when \<open>data\<close> differs from the last render's.\<close>

definition page_effect :: "ms \<Rightarrow> PortfolioResponse option \<Rightarrow> page_state \<Rightarrow> page_state" where
  "page_effect now data st =
     (if data = seen_data st then st
      else st\<lparr>seen_data := data, last_updated := (if data \<noteq> None then now else last_updated st)\<rparr>)"

subsection \<open>Example inputs\<close>

text \<open>RTK Query's error object when the server cannot be reached.\<close>

definition fetch_error_example :: jsval where
  "fetch_error_example = JObj [(''status'', JStr ''FETCH_ERROR''), (''error'', JStr ''TypeError: Failed to fetch'')]"

definition hdfc_stock :: Stock where
  "hdfc_stock = \<lparr>particulars = ''HDFC Bank'', symbol = ''HDFCBANK'', purchasePrice = 1490, quantity = 50,
     investment = 74500, portfolioPercentage = ''12%'', exchange = ''NSE'', cmp = 1700, presentValue = 85000,
     gainLoss = 10500, gainLossColor = Green, peRatio = 18, latestEarnings = 84\<rparr>"

text \<open>A two-sector snapshot with the summary key, one sector without stocks.\<close>

definition example_response :: PortfolioResponse where
  "example_response =
     [(''Financial Sector'', SectorData [hdfc_stock]
         \<lparr>totalInvestment = 74500, totalPresentValue = 85000, totalGainLoss = 10500, summaryColor = Green\<rparr>),
      (''Tech Sector'', SectorData []
         \<lparr>totalInvestment = 0, totalPresentValue = 0, totalGainLoss = 0, summaryColor = Green\<rparr>),
      (''portfolioSummary'', SummaryData
         \<lparr>totalInvestment = 74500, totalPresentValue = 85000, totalGainLoss = 10500, summaryColor = Green\<rparr>)]"

subsection \<open>Evaluation rules\<close>

lemma render_dashboard_loading [simp]:
  "qv_isLoading q \<Longrightarrow> render_dashboard q = Inr LoadingView"
  by (simp add: render_dashboard_def)

lemma render_dashboard_no_error:
  "\<not> qv_isLoading q \<Longrightarrow> qv_error q = None \<Longrightarrow>
   render_dashboard q = (case qv_data q of None \<Rightarrow> Inr NoDataView | Some d \<Rightarrow> render_ready d)"
  by (simp add: render_dashboard_def)

lemma dashboard_sectors_names:
  "map fst (dashboard_sectors d) = filter (\<lambda>k. k \<noteq> summary_key) (map fst d)"
  by (simp add: dashboard_sectors_def fst_filter_key)

lemma render_sector_name:
  "render_sector kv = Inr sec \<Longrightarrow> section_name sec = fst kv"
  by (cases kv rule: render_sector.cases) auto

lemma wf_response_sectors:
  "wf_response d \<Longrightarrow> (k, v) \<in> set (dashboard_sectors d) \<Longrightarrow> \<exists>st sm. v = SectorData st sm"
  by (auto simp: wf_response_def dashboard_sectors_def list_all_iff split: portfolio_entry.splits)

subsection \<open>Properties of the page\<close>

text \<open>
  C12. An error hides the cached data: whenever the hook is not loading and reports a
  (truthy) error, the page renders the same thing whatever data the cache still holds,
  the error screen. The spec prefers showing the last good data with an error banner;
  the page never does.
\<close>

theorem render_error_hides_data:
  assumes "\<not> qv_isLoading q" "qv_error q = Some err" "truthy err"
  shows "render_dashboard (q\<lparr>qv_data := Some d\<rparr>) = render_dashboard (q\<lparr>qv_data := None\<rparr>)"
  using assms by (simp add: render_dashboard_def)

theorem render_error_hides_data_witness:
  "render_dashboard \<lparr>qv_data = Some example_response, qv_error = Some fetch_error_example, qv_isLoading = False\<rparr>
   = Inr (ErrorView (JStr ''Something Went Wrong''))"
proof -
  have "render_dashboard \<lparr>qv_data = Some example_response, qv_error = Some fetch_error_example, qv_isLoading = False\<rparr>
     = render_dashboard \<lparr>qv_data = None, qv_error = Some fetch_error_example, qv_isLoading = False\<rparr>"
    using render_error_hides_data [of "\<lparr>qv_data = None, qv_error = Some fetch_error_example, qv_isLoading = False\<rparr>"
        fetch_error_example example_response]
    by (simp add: fetch_error_example_def)
  then show ?thesis
    by (simp add: render_dashboard_def fetch_error_example_def getErrorFromException_obj default_error_message_def)
qed

lemma render_ready_wf:
  assumes "wf_response d"
  shows "\<exists>secs. render_ready d = Inr (ReadyView (map_of d summary_key) d secs) \<and>
           map section_name secs = filter (\<lambda>k. k \<noteq> summary_key) (map fst d) \<and>
           list_all2 (\<lambda>(n, v) sec. \<exists>st sm. v = SectorData st sm \<and>
               sec = (if st = [] then EmptySectorCard n else SectorSection n sm st))
             (dashboard_sectors d) secs"
proof -
  define g where "g kv = (case kv of (n, SectorData st sm) \<Rightarrow> if st = [] then EmptySectorCard n else SectorSection n sm st
                                     | (n, SummaryData s) \<Rightarrow> EmptySectorCard n)" for kv
  have total: "js_map render_sector (dashboard_sectors d) = Inr (map g (dashboard_sectors d))"
    by (rule js_map_total) (auto simp: g_def dest!: wf_response_sectors [OF assms(1)])
  have names: "map section_name (map g (dashboard_sectors d)) = filter (\<lambda>k. k \<noteq> summary_key) (map fst d)"
  proof -
    have "map section_name (map g (dashboard_sectors d)) = map fst (dashboard_sectors d)"
      by (auto simp: g_def split: portfolio_entry.splits)
    then show ?thesis by (simp add: dashboard_sectors_names)
  qed
  have secs: "list_all2 (\<lambda>(n, v) sec. \<exists>st sm. v = SectorData st sm \<and>
      sec = (if st = [] then EmptySectorCard n else SectorSection n sm st))
    (dashboard_sectors d) (map g (dashboard_sectors d))"
    unfolding list_all2_map2 list_all2_same
    by (auto simp: g_def dest!: wf_response_sectors [OF assms(1)])
  show ?thesis
    using total names secs by (auto simp: render_ready_def dashboard_summary_def)
qed

text \<open>
  C13. A well-formed response renders the dashboard without error: the summary card gets
  the value of the reserved key (when present), and the sections are the sectors of the
  response, in its order, each named by its key: the empty-sector card for a sector
  without stocks, else the section with the sector's summary card and its stocks.
\<close>

theorem render_wf_ready:
  assumes "wf_response d" "\<not> qv_isLoading q" "qv_error q = None" "qv_data q = Some d"
  shows "\<exists>secs. render_dashboard q = Inr (ReadyView (map_of d summary_key) d secs) \<and>
           list_all2 (\<lambda>(n, v) sec. \<exists>st sm. v = SectorData st sm \<and>
               sec = (if st = [] then EmptySectorCard n else SectorSection n sm st))
             (dashboard_sectors d) secs"
proof -
  have "render_dashboard q = render_ready d" using assms(2-4) by (simp add: render_dashboard_no_error)
  then show ?thesis using render_ready_wf [OF assms(1)] by (simp only:) blast
qed

theorem render_wf_ready_witness:
  "\<exists>secs. render_dashboard \<lparr>qv_data = Some example_response, qv_error = None, qv_isLoading = False\<rparr>
       = Inr (ReadyView (map_of example_response summary_key) example_response secs) \<and>
     secs = [SectorSection ''Financial Sector''
               \<lparr>totalInvestment = 74500, totalPresentValue = 85000, totalGainLoss = 10500, summaryColor = Green\<rparr>
               [hdfc_stock],
             EmptySectorCard ''Tech Sector'']"
proof -
  have wf: "wf_response example_response"
    by (simp add: wf_response_def example_response_def summary_key_def)
  show ?thesis
    using render_wf_ready [OF wf, of "\<lparr>qv_data = Some example_response, qv_error = None, qv_isLoading = False\<rparr>"]
    by (auto simp: example_response_def summary_key_def dashboard_sectors_def list_all2_Cons1)
qed

text \<open>
  C14. Rendering the dashboard throws exactly when a key other than
  \<open>portfolioSummary\<close> holds a summary rather than a sector: the page tells the two
  apart by the key's name only.
\<close>

theorem render_ready_throws_iff:
  "(\<exists>e. render_ready d = Inl e) \<longleftrightarrow> (\<exists>k s. (k, SummaryData s) \<in> set d \<and> k \<noteq> summary_key)"
proof -
  have "(\<exists>e. render_ready d = Inl e) \<longleftrightarrow> (\<exists>e. js_map render_sector (dashboard_sectors d) = Inl e)"
    by (cases "js_map render_sector (dashboard_sectors d)") (simp_all add: render_ready_def)
  also have "\<dots> \<longleftrightarrow> (\<exists>kv \<in> set (dashboard_sectors d). \<exists>e. render_sector kv = Inl e)"
    by (rule js_map_throws_iff)
  also have "\<dots> \<longleftrightarrow> (\<exists>k s. (k, SummaryData s) \<in> set d \<and> k \<noteq> summary_key)"
    by (force simp: dashboard_sectors_def elim: render_sector.elims)
  finally show ?thesis .
qed

theorem render_ready_throws_iff_witness:
  "\<exists>e. render_ready ((''Overall'', SummaryData \<lparr>totalInvestment = 1, totalPresentValue = 1, totalGainLoss = 0,
     summaryColor = Green\<rparr>) # example_response) = Inl e"
  by (rule render_ready_throws_iff [THEN iffD2]) (auto simp: summary_key_def)

text \<open>
  C15. Re-rendering without a change of \<open>data\<close> leaves the page state as it is: the
  effect is idempotent, whatever the clock says at the second render.
\<close>

theorem page_effect_idempotent:
  "page_effect now' data (page_effect now data st) = page_effect now data st"
  by (simp add: page_effect_def)

end
