(* ===== verification/Charts.thy ===== *)
theory Charts
  imports PortfolioTable
begin

text \<open>
  The three ECharts components and what they derive from the response:
  \<^item> \<open>src/src/components/sector-performance-chart.tsx\<close>: a bar chart with one
    category per sector and three series (investment, present value, gain/loss), the
    gain/loss bars coloured by the sign of the value;
  \<^item> \<open>src/src/components/portfolio-distribution-chart.tsx\<close>: a pie with one slice per
    sector, valued by its investment and coloured from a ten-colour palette by index;
  \<^item> \<open>src/src/components/stock-performance-chart.tsx\<close>: a bar per stock of a sector,
    coloured by the server's \<open>gainLossColor\<close> tag, with a tooltip whose colour and
    arrow follow the sign of the value.
  Each chart filters the sectors out of the response itself (the same filter as the
  page) and reads \<open>sectorData.summary\<close> of each; a summary under a sector key has no
  \<open>summary\<close>, so the read throws. The option objects are modelled by their data-bearing
  parts: titles, categories, series names, values and the colour of every bar or slice.
  Sizes, fonts and animation settings are styling and not modelled. The arrows of the
  tooltip (two non-ASCII characters in the source) are a datatype.
\<close>

subsection \<open>Chart data\<close>

record bar_series =
  series_name :: string
  series_values :: "real list"
  series_colors :: "string list"

record bar_chart =
  chart_title :: string
  categories :: "string list"
  chart_series :: "bar_series list"

record pie_slice =
  slice_name :: string
  slice_value :: real
  slice_color :: string

datatype trend_icon = ArrowUp | ArrowDown

record stock_tooltip =
  tip_name :: string
  tip_color :: string
  tip_icon :: trend_icon
  tip_amount :: real

definition gain_hex :: string where "gain_hex = ''#52c41a''"
definition loss_hex :: string where "loss_hex = ''#ff4d4f''"

subsection \<open>Sector performance\<close>

definition chart_sectors :: "PortfolioResponse \<Rightarrow> PortfolioResponse" where
  "chart_sectors d = filter (\<lambda>(k, v). k \<noteq> ''portfolioSummary'') d"

text \<open>\<open>sectorData.summary\<close>, with \<open>sectorData\<close> typed \<open>any\<close>.\<close>

fun sector_summary_of :: "string \<times> portfolio_entry \<Rightarrow> Summary js" where
  "sector_summary_of (n, SectorData st sm) = Inr sm"
| "sector_summary_of (n, SummaryData s) =
     Inl (TypeError ''Cannot read properties of undefined (reading 'totalInvestment')'')"

definition sign_color :: "real \<Rightarrow> string" where
  "sign_color v = (if v \<ge> 0 then gain_hex else loss_hex)"

definition SectorPerformanceChart :: "PortfolioResponse \<Rightarrow> bar_chart js" where
  "SectorPerformanceChart d =
     (let sectors = chart_sectors d in
      js_bind (js_map sector_summary_of sectors) (\<lambda>summaries.
        (let investments = map totalInvestment summaries;
            present_values = map totalPresentValue summaries;
            gain_loss = map totalGainLoss summaries
        in Inr \<lparr>chart_title = ''Sector Performance Comparison'',
                categories = map fst sectors,
                chart_series =
                  [\<lparr>series_name = ''Investment'', series_values = investments,
                     series_colors = map (\<lambda>_. ''#0191B4'') investments\<rparr>,
                   \<lparr>series_name = ''Present Value'', series_values = present_values,
                     series_colors = map (\<lambda>_. gain_hex) present_values\<rparr>,
                   \<lparr>series_name = ''Gain/Loss'', series_values = gain_loss,
                     series_colors = map sign_color gain_loss\<rparr>]\<rparr>)))"

subsection \<open>Portfolio distribution\<close>

definition colorPalette :: "string list" where
  "colorPalette = [''#0191B4'', ''#52c41a'', ''#f5222d'', ''#fa8c16'', ''#722ed1'',
                   ''#13c2c2'', ''#eb2f96'', ''#1890ff'', ''#faad14'', ''#a0d911'']"

definition PortfolioDistributionChart :: "PortfolioResponse \<Rightarrow> pie_slice list js" where
  "PortfolioDistributionChart d =
     (let sectors = chart_sectors d in
      js_bind (js_map sector_summary_of sectors) (\<lambda>summaries.
        Inr (map (\<lambda>(i, n, sm). \<lparr>slice_name = n, slice_value = totalInvestment sm,
                                 slice_color = colorPalette ! (i mod length colorPalette)\<rparr>)
               (enumerate 0 (zip (map fst sectors) summaries)))))"

subsection \<open>Stock performance\<close>

definition StockPerformanceChart :: "Stock list \<Rightarrow> bar_chart" where
  "StockPerformanceChart stocks =
     \<lparr>chart_title = ''Individual Stock Performance'',
      categories = map particulars stocks,
      chart_series =
        [\<lparr>series_name = ''Gain/Loss'', series_values = map gainLoss stocks,
           series_colors = map (\<lambda>s. if gainLossColor s = Green then gain_hex else loss_hex) stocks\<rparr>]\<rparr>"

text \<open>The axis tooltip at a stock: its name, and colour, arrow and absolute amount from the
  sign of its gain/loss.\<close>

definition stock_tooltip :: "Stock \<Rightarrow> stock_tooltip" where
  "stock_tooltip s =
     \<lparr>tip_name = particulars s,
      tip_color = (if gainLoss s \<ge> 0 then gain_hex else loss_hex),
      tip_icon = (if gainLoss s \<ge> 0 then ArrowUp else ArrowDown),
      tip_amount = \<bar>gainLoss s\<bar>\<rparr>"

subsection \<open>Example input\<close>

text \<open>Eleven sectors without stocks.\<close>

definition eleven_sectors :: PortfolioResponse where
  "eleven_sectors =
     map (\<lambda>n. (n, SectorData [] \<lparr>totalInvestment = 100, totalPresentValue = 100, totalGainLoss = 0, summaryColor = Green\<rparr>))
       [''A'', ''B'', ''C'', ''D'', ''E'', ''F'', ''G'', ''H'', ''I'', ''J'', ''K'']"

subsection \<open>Evaluation rules\<close>

lemma chart_sectors_eq_dashboard_sectors: "chart_sectors d = dashboard_sectors d"
  by (simp add: chart_sectors_def dashboard_sectors_def summary_key_def)

lemma sector_summary_of_wf:
  "wf_response d \<Longrightarrow> js_map sector_summary_of (chart_sectors d) =
     Inr (map (\<lambda>kv. case snd kv of SectorData st sm \<Rightarrow> sm | SummaryData s \<Rightarrow> s) (chart_sectors d))"
  by (rule js_map_total) (auto simp: chart_sectors_eq_dashboard_sectors dest!: wf_response_sectors)

lemma colorPalette_distinct: "distinct colorPalette"
  by (simp add: colorPalette_def)

lemma length_colorPalette [simp]: "length colorPalette = 10"
  by (simp add: colorPalette_def)

lemma js_map_length: "js_map f xs = Inr ys \<Longrightarrow> length ys = length xs"
  by (simp add: js_map_Inr_iff list_all2_lengthD)

lemma PortfolioDistributionChart_nth:
  assumes "js_map sector_summary_of (chart_sectors d) = Inr sms"
  shows "\<exists>p. PortfolioDistributionChart d = Inr p \<and> length p = length (chart_sectors d) \<and>
           (\<forall>i < length p. p ! i = \<lparr>slice_name = fst (chart_sectors d ! i), slice_value = totalInvestment (sms ! i),
                                    slice_color = colorPalette ! (i mod 10)\<rparr>)"
  using js_map_length [OF assms] assms
  by (auto simp: PortfolioDistributionChart_def Let_def nth_enumerate_eq)

lemma PortfolioDistributionChart_names:
  "PortfolioDistributionChart d = Inr p \<Longrightarrow> map slice_name p = map fst (chart_sectors d)"
proof -
  assume p: "PortfolioDistributionChart d = Inr p"
  then obtain sms where sms: "js_map sector_summary_of (chart_sectors d) = Inr sms"
    by (cases "js_map sector_summary_of (chart_sectors d)") (auto simp: PortfolioDistributionChart_def Let_def)
  show ?thesis
    using PortfolioDistributionChart_nth [OF sms] p by (auto intro: nth_equalityI)
qed

subsection \<open>Properties of the charts\<close>

text \<open>
  C18. The three places that list the sectors agree: for a well-formed response the
  sector performance chart, the distribution pie and the page's sections are all
  rendered, and the chart's categories, the pie's slices and the page's sections name
  the same sectors in the same order.
\<close>

theorem charts_agree_with_page:
  assumes "wf_response d"
  shows "\<exists>c p secs. SectorPerformanceChart d = Inr c \<and> PortfolioDistributionChart d = Inr p \<and>
           render_ready d = Inr (ReadyView (map_of d summary_key) d secs) \<and>
           categories c = map section_name secs \<and> map slice_name p = categories c"
proof -
  obtain secs where "render_ready d = Inr (ReadyView (map_of d summary_key) d secs)"
    and names: "map section_name secs = filter (\<lambda>k. k \<noteq> summary_key) (map fst d)"
    using render_ready_wf [OF assms] by auto
  moreover have "map fst (chart_sectors d) = map section_name secs"
    using names by (simp add: chart_sectors_eq_dashboard_sectors dashboard_sectors_names)
  moreover obtain p where "PortfolioDistributionChart d = Inr p"
    using PortfolioDistributionChart_nth [OF sector_summary_of_wf [OF assms]] by blast
  ultimately show ?thesis
    by (simp add: SectorPerformanceChart_def sector_summary_of_wf [OF assms] Let_def
        PortfolioDistributionChart_names)
qed

theorem charts_agree_with_page_witness:
  "\<exists>c p secs. SectorPerformanceChart example_response = Inr c \<and> PortfolioDistributionChart example_response = Inr p \<and>
     render_ready example_response = Inr (ReadyView (map_of example_response summary_key) example_response secs) \<and>
     categories c = map section_name secs \<and> map slice_name p = categories c"
  by (rule charts_agree_with_page) (simp add: wf_response_def example_response_def summary_key_def)

text \<open>
  C19. The sector performance chart is aligned: its i-th category is a sector of the
  response, and the i-th bar of the three series shows that sector's total investment,
  present value and gain/loss, the last coloured green (\<open>#52c41a\<close>) when it is not
  negative and red (\<open>#ff4d4f\<close>) when it is.
\<close>

theorem sector_chart_aligned:
  assumes "SectorPerformanceChart d = Inr c" "i < length (categories c)"
  shows "\<exists>st sm. (categories c ! i, SectorData st sm) \<in> set d \<and> categories c ! i \<noteq> ''portfolioSummary'' \<and>
           map (\<lambda>ser. series_values ser ! i) (chart_series c) = [totalInvestment sm, totalPresentValue sm, totalGainLoss sm] \<and>
           series_colors (chart_series c ! 2) ! i = (if 0 \<le> totalGainLoss sm then ''#52c41a'' else ''#ff4d4f'')"
proof -
  obtain sms where sms: "js_map sector_summary_of (chart_sectors d) = Inr sms"
    and c: "c = \<lparr>chart_title = ''Sector Performance Comparison'', categories = map fst (chart_sectors d),
                chart_series =
                  [\<lparr>series_name = ''Investment'', series_values = map totalInvestment sms,
                     series_colors = map (\<lambda>_. ''#0191B4'') (map totalInvestment sms)\<rparr>,
                   \<lparr>series_name = ''Present Value'', series_values = map totalPresentValue sms,
                     series_colors = map (\<lambda>_. gain_hex) (map totalPresentValue sms)\<rparr>,
                   \<lparr>series_name = ''Gain/Loss'', series_values = map totalGainLoss sms,
                     series_colors = map sign_color (map totalGainLoss sms)\<rparr>]\<rparr>"
    using assms(1)
    by (cases "js_map sector_summary_of (chart_sectors d)") (auto simp: SectorPerformanceChart_def Let_def)
  have i: "i < length (chart_sectors d)" and len: "length sms = length (chart_sectors d)"
    using assms(2) c js_map_length [OF sms] by auto
  obtain n v where nv: "chart_sectors d ! i = (n, v)" by (cases "chart_sectors d ! i")
  have "sector_summary_of (n, v) = Inr (sms ! i)"
    using sms i nv by (auto simp: js_map_Inr_iff dest: list_all2_nthD)
  then obtain st where v: "v = SectorData st (sms ! i)"
    by (cases "(n, v)" rule: sector_summary_of.cases) auto
  have "(n, v) \<in> set (chart_sectors d)" using i nv by (metis nth_mem)
  then have "(n, v) \<in> set d \<and> n \<noteq> ''portfolioSummary''" by (simp add: chart_sectors_def)
  then show ?thesis using c i len nv v by (auto simp: sign_color_def gain_hex_def loss_hex_def)
qed

theorem sector_chart_aligned_witness:
  "\<exists>c. SectorPerformanceChart example_response = Inr c \<and>
     (\<exists>st sm. (categories c ! 0, SectorData st sm) \<in> set example_response \<and> categories c ! 0 \<noteq> ''portfolioSummary'' \<and>
        map (\<lambda>ser. series_values ser ! 0) (chart_series c) = [totalInvestment sm, totalPresentValue sm, totalGainLoss sm] \<and>
        series_colors (chart_series c ! 2) ! 0 = (if 0 \<le> totalGainLoss sm then ''#52c41a'' else ''#ff4d4f''))"
proof -
  obtain c where c: "SectorPerformanceChart example_response = Inr c"
    by (simp add: SectorPerformanceChart_def example_response_def chart_sectors_def Let_def)
  moreover have "0 < length (categories c)"
    using c by (auto simp: SectorPerformanceChart_def example_response_def chart_sectors_def Let_def)
  ultimately have "\<exists>st sm. (categories c ! 0, SectorData st sm) \<in> set example_response \<and>
      categories c ! 0 \<noteq> ''portfolioSummary'' \<and>
      map (\<lambda>ser. series_values ser ! 0) (chart_series c) = [totalInvestment sm, totalPresentValue sm, totalGainLoss sm] \<and>
      series_colors (chart_series c ! 2) ! 0 = (if 0 \<le> totalGainLoss sm then ''#52c41a'' else ''#ff4d4f'')"
    by (rule sector_chart_aligned)
  with c show ?thesis by (intro exI [of _ c] conjI)
qed

text \<open>
  C20. Neighbouring slices of the distribution pie never share a colour: slice i and
  slice i+1 take different entries of the ten-colour palette.
\<close>

theorem pie_neighbours_distinct_colors:
  assumes "PortfolioDistributionChart d = Inr p" "Suc i < length p"
  shows "slice_color (p ! i) \<noteq> slice_color (p ! Suc i)"
proof -
  obtain sms where sms: "js_map sector_summary_of (chart_sectors d) = Inr sms"
    using assms(1) by (cases "js_map sector_summary_of (chart_sectors d)")
      (auto simp: PortfolioDistributionChart_def Let_def)
  have colors: "slice_color (p ! j) = colorPalette ! (j mod 10)" if "j < length p" for j
    using PortfolioDistributionChart_nth [OF sms] assms(1) that by auto
  have "i mod 10 \<noteq> Suc i mod 10" by (simp add: mod_Suc)
  then have "colorPalette ! (i mod 10) \<noteq> colorPalette ! (Suc i mod 10)"
    using colorPalette_distinct by (simp add: nth_eq_iff_index_eq)
  then show ?thesis using colors assms(2) by simp
qed

theorem pie_neighbours_distinct_colors_witness:
  "\<exists>p. PortfolioDistributionChart example_response = Inr p \<and> slice_color (p ! 0) \<noteq> slice_color (p ! 1)"
proof -
  obtain p where p: "PortfolioDistributionChart example_response = Inr p" and "1 < length p"
    by (simp add: PortfolioDistributionChart_def example_response_def chart_sectors_def Let_def)
  then show ?thesis using pie_neighbours_distinct_colors [of example_response p 0] by auto
qed

text \<open>
  The palette wraps around: a portfolio with eleven sectors gets the same colour for
  its first and last slice, which are neighbours on the ring of the pie.
\<close>

theorem pie_wraparound_same_color:
  "\<exists>p. PortfolioDistributionChart eleven_sectors = Inr p \<and> length p = 11 \<and>
     slice_color (hd p) = slice_color (last p)"
  by (simp add: PortfolioDistributionChart_def eleven_sectors_def chart_sectors_def Let_def colorPalette_def)

text \<open>
  C22. Within the stock performance chart, a bar's colour comes from the server's tag
  and its tooltip's colour from the sign of the value: they agree exactly when the tag
  is green for a non-negative gain/loss and red for a negative one.
\<close>

theorem stock_tooltip_matches_bar_iff:
  assumes "i < length stocks"
  shows "tip_color (stock_tooltip (stocks ! i)) = series_colors (hd (chart_series (StockPerformanceChart stocks))) ! i
         \<longleftrightarrow> (gainLossColor (stocks ! i) = Green \<longleftrightarrow> 0 \<le> gainLoss (stocks ! i))"
  using assms by (simp add: stock_tooltip_def StockPerformanceChart_def gain_hex_def loss_hex_def)

theorem stock_tooltip_matches_bar_iff_witness:
  "tip_color (stock_tooltip ([hdfc_stock\<lparr>gainLossColor := Red\<rparr>] ! 0)) \<noteq>
     series_colors (hd (chart_series (StockPerformanceChart [hdfc_stock\<lparr>gainLossColor := Red\<rparr>]))) ! 0"
  using stock_tooltip_matches_bar_iff [of 0 "[hdfc_stock\<lparr>gainLossColor := Red\<rparr>]"]
  by (simp add: hdfc_stock_def)

end
