(* ===== verification/SummaryCards.thy ===== *)
theory SummaryCards
  imports Format Charts
begin

text \<open>
  \<open>src/src/components/sector-summary-card.tsx\<close> and
  \<open>src/src/components/portfolio-summary-card.tsx\<close>: the two cards that show a summary.
  Both compute the return \<open>((totalGainLoss / totalInvestment) * 100).toFixed(2)\<close> as a
  string, choose their colours and arrow from the \<open>gainLossColor\<close> tag (not from the
  sign of the numbers), print the amounts with \<open>formatCurrency\<close>, and draw a progress
  bar of \<open>Math.min(Math.abs(parseFloat(return)), 100)\<close>. A card is a record of what it
  renders: texts, colours and the progress value, which antd receives as a number
  (NaN included). The JSX child \<open>{Math.abs(parseFloat(r))}\<close> is \<open>Number::toString\<close> of
  a number with at most two fraction digits, which \<open>number_to_string\<close> prints.
\<close>

definition return_percentage :: "Summary \<Rightarrow> string" where
  "return_percentage s = toFixed (js_scale (js_div (totalGainLoss s) (totalInvestment s)) 100) 2"

text \<open>\<open>Number::toString\<close> of a number with at most two fraction digits: no trailing zeros
  in the fraction, no point when the fraction is empty.\<close>

definition trim_fraction :: "string \<Rightarrow> string" where
  "trim_fraction s = (let t = rev (dropWhile (\<lambda>c. c = CHR ''0'') (rev s)) in
                      if t \<noteq> [] \<and> last t = CHR ''.'' then butlast t else t)"

fun number_to_string :: "jsnum \<Rightarrow> string" where
  "number_to_string (Fin x) = (if x < 0 then ''-'' else []) @ trim_fraction (fixed_string (fixed_units \<bar>x\<bar> 2) 2)"
| "number_to_string NaN = ''NaN''"
| "number_to_string PosInf = ''Infinity''"
| "number_to_string NegInf = ''-Infinity''"

record sector_card =
  sc_title :: string
  sc_positive :: bool
  sc_badge :: string
  sc_badge_color :: string
  sc_performance :: string
  sc_progress :: jsnum
  sc_stroke :: string
  sc_investment :: string
  sc_present_value :: string
  sc_trend :: trend_icon
  sc_gain_loss :: string
  sc_return :: string

definition SectorSummaryCard :: "string \<Rightarrow> SectorSummary \<Rightarrow> sector_card" where
  "SectorSummaryCard sectorName summary =
     (let isPositive = (summaryColor summary = Green);
          returnPercentage = return_percentage summary;
          magnitude = js_abs (parseFloat returnPercentage)
      in \<lparr>sc_title = sectorName,
          sc_positive = isPositive,
          sc_badge = (if isPositive then ''+'' @ returnPercentage @ ''%'' else returnPercentage @ ''%''),
          sc_badge_color = (if isPositive then gain_hex else loss_hex),
          sc_performance = number_to_string magnitude @ ''%'',
          sc_progress = js_min magnitude 100,
          sc_stroke = (if isPositive then gain_hex else loss_hex),
          sc_investment = formatCurrency (totalInvestment summary),
          sc_present_value = formatCurrency (totalPresentValue summary),
          sc_trend = (if isPositive then ArrowUp else ArrowDown),
          sc_gain_loss = formatCurrency (totalGainLoss summary),
          sc_return = returnPercentage @ ''%''\<rparr>)"

record portfolio_card =
  pc_positive :: bool
  pc_total_return :: string
  pc_investment :: string
  pc_present_value :: string
  pc_trend :: trend_icon
  pc_gain_loss :: string
  pc_performance :: string
  pc_progress :: jsnum

text \<open>The total return is rendered twice, in the header and in the fourth tile, as the
  same two children \<open>{isPositive ? "+" : ""}{totalReturnPercentage}%\<close>.\<close>

definition PortfolioSummaryCard :: "PortfolioSummary \<Rightarrow> portfolio_card" where
  "PortfolioSummaryCard summary =
     (let isPositive = (summaryColor summary = Green);
          totalReturnPercentage = return_percentage summary;
          magnitude = js_abs (parseFloat totalReturnPercentage)
      in \<lparr>pc_positive = isPositive,
          pc_total_return = (if isPositive then ''+'' else []) @ totalReturnPercentage @ ''%'',
          pc_investment = formatCurrency (totalInvestment summary),
          pc_present_value = formatCurrency (totalPresentValue summary),
          pc_trend = (if isPositive then ArrowUp else ArrowDown),
          pc_gain_loss = formatCurrency (totalGainLoss summary),
          pc_performance = number_to_string magnitude @ ''%'',
          pc_progress = js_min magnitude 100\<rparr>)"

subsection \<open>Properties\<close>

lemma parse_return_percentage:
  "totalInvestment s \<noteq> 0 \<Longrightarrow>
   parseFloat (return_percentage s) = Fin (round_fixed (totalGainLoss s / totalInvestment s * 100) 2)"
proof -
  assume "totalInvestment s \<noteq> 0"
  then have "js_div (totalGainLoss s) (totalInvestment s) = Fin (totalGainLoss s / totalInvestment s)"
    by (simp add: js_div_def)
  then show ?thesis by (simp only: return_percentage_def js_scale.simps parseFloat_toFixed)
qed

lemma return_percentage_zero:
  "totalInvestment s = 0 \<Longrightarrow>
   return_percentage s = (if totalGainLoss s = 0 then ''NaN'' else if totalGainLoss s > 0 then ''Infinity'' else ''-Infinity'')"
  by (simp add: return_percentage_def js_div_def)

lemma parseFloat_special [simp]:
  "parseFloat ''NaN'' = NaN" "parseFloat ''Infinity'' = PosInf" "parseFloat ''-Infinity'' = NegInf"
  by (simp_all add: parseFloat_def is_js_space_def parse_mantissa_def is_digit_def)

text \<open>
  C23. Bounds: for a sector with a non-zero investment, the progress bar of its card is
  the absolute return rounded to two places, clipped at 100: a value in [0, 100].
\<close>

theorem sector_progress_bounds:
  assumes "totalInvestment s \<noteq> 0"
  shows "sc_progress (SectorSummaryCard n s)
           = Fin (min \<bar>round_fixed (totalGainLoss s / totalInvestment s * 100) 2\<bar> 100) \<and>
         0 \<le> min \<bar>round_fixed (totalGainLoss s / totalInvestment s * 100) 2\<bar> 100 \<and>
         min \<bar>round_fixed (totalGainLoss s / totalInvestment s * 100) 2\<bar> 100 \<le> 100"
  using parse_return_percentage [OF assms] by (simp add: SectorSummaryCard_def Let_def)

theorem sector_progress_bounds_witness:
  "totalInvestment \<lparr>totalInvestment = 200, totalPresentValue = 500, totalGainLoss = 300, summaryColor = Green\<rparr> \<noteq> 0 \<and>
   sc_progress (SectorSummaryCard ''Energy'' \<lparr>totalInvestment = 200, totalPresentValue = 500, totalGainLoss = 300, summaryColor = Green\<rparr>) = Fin 100"
  using sector_progress_bounds [of "\<lparr>totalInvestment = 200, totalPresentValue = 500, totalGainLoss = 300, summaryColor = Green\<rparr>" "''Energy''"]
  by (simp add: round_fixed_def fixed_units_def)

text \<open>
  C24. Error path: a portfolio whose total investment is zero shows a total return of
  NaN% (no gain either) or Infinity% / -Infinity%, and its progress bar receives NaN, or
  is full when there is a gain or a loss.
\<close>

theorem portfolio_zero_investment:
  assumes "totalInvestment s = 0"
  shows "pc_total_return (PortfolioSummaryCard s) =
           (if summaryColor s = Green then ''+'' else []) @
           (if totalGainLoss s = 0 then ''NaN'' else if totalGainLoss s > 0 then ''Infinity'' else ''-Infinity'') @ ''%'' \<and>
         pc_progress (PortfolioSummaryCard s) = (if totalGainLoss s = 0 then NaN else Fin 100)"
  using return_percentage_zero [OF assms] by (simp add: PortfolioSummaryCard_def Let_def)

theorem portfolio_zero_investment_witness:
  "totalInvestment \<lparr>totalInvestment = 0, totalPresentValue = 0, totalGainLoss = 0, summaryColor = Green\<rparr> = 0 \<and>
   pc_total_return (PortfolioSummaryCard \<lparr>totalInvestment = 0, totalPresentValue = 0, totalGainLoss = 0, summaryColor = Green\<rparr>) = ''+NaN%'' \<and>
   pc_progress (PortfolioSummaryCard \<lparr>totalInvestment = 0, totalPresentValue = 0, totalGainLoss = 0, summaryColor = Green\<rparr>) = NaN"
  using portfolio_zero_investment [of "\<lparr>totalInvestment = 0, totalPresentValue = 0, totalGainLoss = 0, summaryColor = Green\<rparr>"]
  by simp

text \<open>
  C25. When the tag agrees with the sign of the gain (green exactly for a gain of zero or
  more) and the investment is positive, the sector badge carries exactly one sign, plus
  for a gain and minus for a loss, followed by the rounded magnitude and a percent sign.
\<close>

theorem badge_single_sign:
  assumes "summaryColor s = Green \<longleftrightarrow> 0 \<le> totalGainLoss s" and "0 < totalInvestment s"
  shows "sc_badge (SectorSummaryCard n s) =
           (if 0 \<le> totalGainLoss s then ''+'' else ''-'') @
           fixed_string (fixed_units \<bar>totalGainLoss s / totalInvestment s * 100\<bar> 2) 2 @ ''%''"
proof -
  have "totalGainLoss s / totalInvestment s * 100 < 0 \<longleftrightarrow> totalGainLoss s < 0"
    using assms(2) by (simp add: mult_less_0_iff divide_less_0_iff)
  then show ?thesis
    using assms by (auto simp: SectorSummaryCard_def Let_def return_percentage_def js_div_def)
qed

theorem badge_single_sign_witness:
  "(summaryColor \<lparr>totalInvestment = 400, totalPresentValue = 390, totalGainLoss = -10, summaryColor = Red\<rparr> = Green
      \<longleftrightarrow> 0 \<le> totalGainLoss \<lparr>totalInvestment = 400, totalPresentValue = 390, totalGainLoss = -10, summaryColor = Red\<rparr>) \<and>
   0 < totalInvestment \<lparr>totalInvestment = 400, totalPresentValue = 390, totalGainLoss = -10, summaryColor = Red\<rparr> \<and>
   sc_badge (SectorSummaryCard ''Auto'' \<lparr>totalInvestment = 400, totalPresentValue = 390, totalGainLoss = -10, summaryColor = Red\<rparr>) = ''-2.50%''"
  using badge_single_sign [of "\<lparr>totalInvestment = 400, totalPresentValue = 390, totalGainLoss = -10, summaryColor = Red\<rparr>" "''Auto''"]
  by (simp add: fixed_units_def fixed_string_def nat_digits.simps digit_char_def)

text \<open>
  C26. Spec gap: the badge takes its plus from the tag and its minus from the number, so
  a sector tagged green whose gain is negative shows two signs, \<open>+-\<close>, before the
  digits.
\<close>

theorem green_loss_double_sign:
  assumes "summaryColor s = Green" and "0 < totalInvestment s" and "totalGainLoss s < 0"
  shows "take 2 (sc_badge (SectorSummaryCard n s)) = ''+-''"
proof -
  have "totalGainLoss s / totalInvestment s * 100 < 0"
    using assms(2,3) by (simp add: mult_less_0_iff divide_less_0_iff)
  then show ?thesis
    using assms by (simp add: SectorSummaryCard_def Let_def return_percentage_def js_div_def)
qed

theorem green_loss_double_sign_witness:
  "summaryColor \<lparr>totalInvestment = 1000, totalPresentValue = 950, totalGainLoss = -50, summaryColor = Green\<rparr> = Green \<and>
   0 < totalInvestment \<lparr>totalInvestment = 1000, totalPresentValue = 950, totalGainLoss = -50, summaryColor = Green\<rparr> \<and>
   totalGainLoss \<lparr>totalInvestment = 1000, totalPresentValue = 950, totalGainLoss = -50, summaryColor = Green\<rparr> < 0 \<and>
   take 2 (sc_badge (SectorSummaryCard ''IT'' \<lparr>totalInvestment = 1000, totalPresentValue = 950, totalGainLoss = -50, summaryColor = Green\<rparr>)) = ''+-''"
  using green_loss_double_sign [of "\<lparr>totalInvestment = 1000, totalPresentValue = 950, totalGainLoss = -50, summaryColor = Green\<rparr>" "''IT''"]
  by simp

end
