(* ===== verification/NumberLocale.thy ===== *)
theory NumberLocale
  imports Format
begin

text \<open>
  \<open>Number.prototype.toLocaleString()\<close> without arguments, which the quantity column of
  the stock table calls: \<open>Intl.NumberFormat\<close> of the browser's default locale with the
  default options: no currency, at least zero and at most three fraction digits,
  rounding half away from zero, trailing zeros of the fraction dropped, grouping of the
  integer digits, and a minus sign for a negative number (negative zero included).
  The result depends on the locale, which is therefore a parameter: en-US groups the
  digits in threes (\<open>1,234,567.5\<close>), en-IN in the Indian way (\<open>12,34,567.5\<close>); both
  use a comma and a point. The argument is a quantity of the JSON response: finite, a
  \<open>real\<close>.
\<close>

datatype number_locale = EnUS | EnIN

fun locale_group :: "number_locale \<Rightarrow> string \<Rightarrow> string" where
  "locale_group EnUS ds = group_digits 3 ds"
| "locale_group EnIN ds = group_indian ds"

text \<open>Fraction digits with their trailing zeros dropped.\<close>

definition trim_zeros :: "string \<Rightarrow> string" where
  "trim_zeros fp = rev (dropWhile (\<lambda>c. c = CHR ''0'') (rev fp))"

definition toLocaleString :: "number_locale \<Rightarrow> real \<Rightarrow> string" where
  "toLocaleString loc x =
     (let s = fixed_string (fixed_units \<bar>x\<bar> 3) 3; k = length s - 4; fr = trim_zeros (drop (k + 1) s)
      in (if x < 0 then ''-'' else []) @ locale_group loc (take k s) @ (if fr = [] then [] else CHR ''.'' # fr))"

subsection \<open>Reading a localised number back\<close>

lemma filter_locale_group:
  "\<forall>c\<in>set ds. P c \<Longrightarrow> \<not> P CHR '','' \<Longrightarrow> filter P (locale_group loc ds) = ds"
  by (cases loc) (simp_all add: filter_group_digits filter_group_indian)

lemma trim_zeros_split: "fp = trim_zeros fp @ replicate (length fp - length (trim_zeros fp)) CHR ''0''"
proof -
  let ?t = "takeWhile (\<lambda>c. c = CHR ''0'') (rev fp)"
  have "rev fp = ?t @ dropWhile (\<lambda>c. c = CHR ''0'') (rev fp)" by simp
  then have "fp = trim_zeros fp @ rev ?t"
    unfolding trim_zeros_def by (metis rev_append rev_rev_ident)
  moreover have "\<forall>c\<in>set (rev ?t). c = CHR ''0''" by (auto dest: set_takeWhileD)
  then have "rev ?t = replicate (length ?t) CHR ''0''"
    using replicate_length_same [of "rev ?t" "CHR ''0''"] by simp
  moreover have "length ?t = length fp - length (trim_zeros fp)"
    using arg_cong [OF \<open>fp = trim_zeros fp @ rev ?t\<close>, of length] by simp
  ultimately show ?thesis by metis
qed

lemma digits_val_trailing_zeros: "digits_val (xs @ replicate z CHR ''0'') = digits_val xs * 10 ^ z"
  using digits_val_append [of xs "replicate z CHR ''0''"] digits_val_zeros [of z "[]"]
  by (simp add: digits_val_def)

lemma trim_zeros_digits: "c \<in> set (trim_zeros fp) \<Longrightarrow> c \<in> set fp"
  by (auto simp: trim_zeros_def dest: set_dropWhileD)

lemma toLocaleString_parse:
  "parseFloat (filter (\<lambda>c. c \<noteq> CHR '','') (toLocaleString loc x)) = Fin (round_fixed x 3)"
proof -
  define n where "n = fixed_units \<bar>x\<bar> 3"
  obtain ip fp where s: "fixed_string n 3 = ip @ CHR ''.'' # fp" "ip \<noteq> []" "length fp = 3"
    "\<forall>c\<in>set ip. is_digit c" "\<forall>c\<in>set fp. is_digit c"
    "digits_val ip * 10 ^ 3 + digits_val fp = n"
    using fixed_string_shape [of 3 n] by auto
  define fr where "fr = trim_zeros fp"
  define z where "z = length fp - length fr"
  have fp: "fp = fr @ replicate z CHR ''0''" unfolding fr_def z_def by (rule trim_zeros_split)
  have frd: "\<forall>c\<in>set fr. is_digit c" using s(5) trim_zeros_digits unfolding fr_def by blast
  have z: "length fr + z = 3" using fp s(3) by (metis length_append length_replicate)
  have nc: "\<not> (CHR '','' \<noteq> CHR '','')" by simp
  have g: "filter (\<lambda>c. c \<noteq> CHR '','') (locale_group loc ip) = ip"
    using s(4) by (intro filter_locale_group) (auto simp: is_digit_def)
  have fr_nc: "filter (\<lambda>c. c \<noteq> CHR '','') fr = fr"
    using frd by (auto simp: filter_id_conv is_digit_def)
  have str: "filter (\<lambda>c. c \<noteq> CHR '','') (toLocaleString loc x)
             = (if x < 0 then ''-'' else []) @ ip @ (if fr = [] then [] else CHR ''.'' # fr)"
    using s(1,3) g fr_nc by (simp add: toLocaleString_def Let_def n_def fr_def)
  have val: "real (digits_val ip) + (if fr = [] then 0 else real (digits_val fr) / 10 ^ length fr)
             = real n / 10 ^ 3"
  proof -
    have "real n = real (digits_val ip) * 10 ^ 3 + real (digits_val fr) * 10 ^ z"
      using s(6) fp digits_val_trailing_zeros [of fr z] by (metis of_nat_add of_nat_mult of_nat_numeral of_nat_power)
    moreover have "(10::real) ^ 3 = 10 ^ length fr * 10 ^ z" using z by (metis power_add)
    ultimately show ?thesis by (auto simp: field_simps digits_val_def)
  qed
  have mant: "parse_mantissa (ip @ (if fr = [] then [] else CHR ''.'' # fr))
              = Some (real (digits_val ip) + (if fr = [] then 0 else real (digits_val fr) / 10 ^ length fr), [])"
    using parse_mantissa_digits [OF s(2,4)] parse_mantissa_point [OF s(2,4) frd] by simp
  obtain c r where cr: "ip = c # r" "is_digit c" using s(2,4) by (cases ip) auto
  have pe: "parse_exponent [] = 0" "pow10 0 = 1" by (simp_all add: parse_exponent_def pow10_def)
  have rf: "round_fixed x 3 = (if x < 0 then -1 else 1) * (real n / 10 ^ 3)"
    by (simp add: round_fixed_def n_def)
  show ?thesis
    using parseFloat_digit_start [OF cr(2), of "r @ (if fr = [] then [] else CHR ''.'' # fr)"] mant
    unfolding str rf val [symmetric] by (simp add: cr(1) pe)
qed

end
