(* ===== verification/StocksTable.thy ===== *)
theory StocksTable
  imports NumberLocale Charts
begin

text \<open>
  \<open>src/src/components/sector-stock-table.tsx\<close>: \<open>SectorStocksTable\<close>, the table of a
  sector's stocks under its \<open>StockPerformanceChart\<close>. Each column's \<open>render\<close> is a
  function of the cell value and the row's stock; a row is the record of what the
  renderers produce for one stock, and the table the header texts, the chart, and
  the rows in the order of \<open>stocks\<close> with their \<open>rowKey\<close> and \<open>rowClassName\<close>.
  The quantity column prints \<open>value.toLocaleString()\<close>, whose output depends on the
  browser's default locale: the locale is a parameter of the table. The P/E renderer
  \<open>value?.toFixed(2) || "N/A"\<close> is modelled on the raw JSON value, since its
  fallback exists for a value the type says cannot occur.
\<close>

definition exchange_color :: "string \<Rightarrow> string" where
  "exchange_color ex = (if ex = ''NSE'' then ''blue'' else ''green'')"

text \<open>\<open>value.replace("%", "")\<close>: a string pattern replaces its first occurrence only.\<close>

fun replace_first :: "char \<Rightarrow> string \<Rightarrow> string" where
  "replace_first c [] = []"
| "replace_first c (x # xs) = (if x = c then xs else x # replace_first c xs)"

definition portfolio_percent :: "string \<Rightarrow> jsnum" where
  "portfolio_percent value = parseFloat (replace_first CHR ''%'' value)"

text \<open>\<open>value?.toFixed(2) || "N/A"\<close>: optional chaining gives undefined for a nullish value;
  calling \<open>toFixed\<close> on anything but a number is a TypeError; \<open>||\<close> falls back on a
  falsy (here: empty) string.\<close>

definition pe_cell :: "jsval \<Rightarrow> string js" where
  "pe_cell v =
     (case v of
        JUndefined \<Rightarrow> Inr ''N/A''
      | JNull \<Rightarrow> Inr ''N/A''
      | JNum n \<Rightarrow> (let s = toFixed n 2 in Inr (if s = [] then ''N/A'' else s))
      | _ \<Rightarrow> Inl (TypeError ''value.toFixed is not a function''))"

definition gain_percentage :: "Stock \<Rightarrow> string" where
  "gain_percentage st = toFixed (js_scale (js_div (gainLoss st) (investment st)) 100) 1"

record stock_row =
  row_key :: string
  row_name :: string
  row_exchange :: string
  row_exchange_color :: string
  row_symbol :: string
  row_purchase :: string
  row_quantity :: string
  row_investment :: string
  row_portfolio_text :: string
  row_portfolio_percent :: jsnum
  row_cmp :: string
  row_present :: string
  row_gain_positive :: bool
  row_gain_text :: string
  row_gain_pct_text :: string
  row_pe :: "string js"
  row_earnings :: string
  row_class :: string

definition row_class_name :: "nat \<Rightarrow> string" where
  "row_class_name index =
     ''hover:bg-blue-50 transition-colors duration-200 '' @ (if index mod 2 = 0 then ''bg-gray-50/50'' else ''bg-white'')"

definition stock_row :: "number_locale \<Rightarrow> nat \<Rightarrow> Stock \<Rightarrow> stock_row" where
  "stock_row locale index record =
     (let isPositive = (gainLossColor record = Green)
      in \<lparr>row_key = symbol record,
          row_name = particulars record,
          row_exchange = exchange record,
          row_exchange_color = exchange_color (exchange record),
          row_symbol = symbol record,
          row_purchase = formatCurrency (purchasePrice record),
          row_quantity = toLocaleString locale (quantity record),
          row_investment = formatCurrency (investment record),
          row_portfolio_text = portfolioPercentage record,
          row_portfolio_percent = portfolio_percent (portfolioPercentage record),
          row_cmp = formatCurrency (cmp record),
          row_present = formatCurrency (presentValue record),
          row_gain_positive = isPositive,
          row_gain_text = (if isPositive then ''+'' else []) @ formatCurrency (gainLoss record),
          row_gain_pct_text = (if isPositive then ''+'' else []) @ gain_percentage record @ ''%'',
          row_pe = pe_cell (JNum (Fin (peRatio record))),
          row_earnings = formatCurrency (latestEarnings record),
          row_class = row_class_name index\<rparr>)"

record stocks_table =
  st_chart :: bar_chart
  st_title :: string
  st_subtitle :: string
  st_total :: nat
  st_rows :: "stock_row list"

definition SectorStocksTable :: "number_locale \<Rightarrow> Stock list \<Rightarrow> string \<Rightarrow> stocks_table" where
  "SectorStocksTable locale stocks sectorName =
     \<lparr>st_chart = StockPerformanceChart stocks,
      st_title = sectorName @ '' Stocks'',
      st_subtitle = nat_digits (length stocks) @ '' stocks in this sector'',
      st_total = length stocks,
      st_rows = map2 (stock_row locale) [0..<length stocks] stocks\<rparr>"

subsection \<open>Properties\<close>

lemma replace_first_append: "c \<notin> set xs \<Longrightarrow> replace_first c (xs @ c # ys) = xs @ ys"
  by (induction xs) auto

lemma st_rows_nth:
  "i < length stocks \<Longrightarrow> st_rows (SectorStocksTable loc stocks n) ! i = stock_row loc i (stocks ! i)"
  by (simp add: SectorStocksTable_def)

text \<open>
  C29. The P/E cell shows N/A exactly for a missing (null or undefined) P/E: for every
  number, toFixed yields a non-empty string other than N/A, so the \<open>||\<close> fallback never
  fires and a P/E of zero prints as 0.00.
\<close>

theorem pe_cell_na_iff: "pe_cell v = Inr ''N/A'' \<longleftrightarrow> nullish v"
  using toFixed_not_na by (cases v) (auto simp: pe_cell_def Let_def)

text \<open>Row striping: consecutive rows of a sector's table never share a background class;
  rows at even positions get the grey one.\<close>

theorem rows_striped:
  assumes "Suc i < length stocks"
  shows "row_class (st_rows (SectorStocksTable loc stocks n) ! i) \<noteq> row_class (st_rows (SectorStocksTable loc stocks n) ! Suc i) \<and>
         row_class (st_rows (SectorStocksTable loc stocks n) ! i) =
           ''hover:bg-blue-50 transition-colors duration-200 '' @ (if even i then ''bg-gray-50/50'' else ''bg-white'')"
  using assms by (simp add: st_rows_nth stock_row_def Let_def row_class_name_def even_iff_mod_2_eq_zero mod_Suc)

theorem rows_striped_witness:
  "Suc 0 < length [hdfc_stock, hdfc_stock] \<and>
   row_class (st_rows (SectorStocksTable EnUS [hdfc_stock, hdfc_stock] ''Financial Sector'') ! 0) =
     ''hover:bg-blue-50 transition-colors duration-200 bg-gray-50/50''"
  using rows_striped [of 0 "[hdfc_stock, hdfc_stock]" EnUS "''Financial Sector''"] by simp

text \<open>
  C30. The table and the chart above it describe the same stocks in the same order: row i
  names the stock of bar i, and the row's gain is styled positive exactly when bar i is
  green (both read the server's tag).
\<close>

theorem rows_match_chart:
  assumes "i < length stocks"
  shows "row_name (st_rows (SectorStocksTable loc stocks n) ! i) = categories (st_chart (SectorStocksTable loc stocks n)) ! i \<and>
         (row_gain_positive (st_rows (SectorStocksTable loc stocks n) ! i)
            \<longleftrightarrow> series_colors (hd (chart_series (st_chart (SectorStocksTable loc stocks n)))) ! i = gain_hex)"
  using assms by (simp add: st_rows_nth stock_row_def Let_def SectorStocksTable_def StockPerformanceChart_def gain_hex_def loss_hex_def)

theorem rows_match_chart_witness:
  "0 < length [hdfc_stock] \<and>
   row_name (st_rows (SectorStocksTable EnUS [hdfc_stock] ''Financial Sector'') ! 0)
     = categories (st_chart (SectorStocksTable EnUS [hdfc_stock] ''Financial Sector'')) ! 0"
  using rows_match_chart [of 0 "[hdfc_stock]" EnUS "''Financial Sector''"] by simp

text \<open>
  C31. The progress bar of the share column reads a share written as digits around a
  percent sign as the number the digits spell: \<open>replace("%", "")\<close> removes only
  the first percent sign, so a sign inside the digits joins them (\<open>"1%2"\<close> reads as
  12, where \<open>parseFloat\<close> alone would stop at 1), and a trailing one (\<open>"12%"\<close>,
  the usual form) is dropped.
\<close>

theorem portfolio_percent_digits:
  assumes "ds1 \<noteq> []" "\<forall>c\<in>set ds1. is_digit c" "\<forall>c\<in>set ds2. is_digit c"
  shows "portfolio_percent (ds1 @ CHR ''%'' # ds2) = Fin (real (digits_val (ds1 @ ds2)))"
proof -
  have "CHR ''%'' \<notin> set ds1" using assms(2) by (auto simp: is_digit_def)
  then have "replace_first CHR ''%'' (ds1 @ CHR ''%'' # ds2) = ds1 @ ds2" by (rule replace_first_append)
  moreover have "\<forall>c\<in>set (ds1 @ ds2). is_digit c" using assms(2,3) by auto
  ultimately show ?thesis using parseFloat_digits [of "ds1 @ ds2"] assms(1) by (simp add: portfolio_percent_def)
qed

theorem portfolio_percent_digits_witness:
  "portfolio_percent ''1%2'' = Fin 12 \<and> parseFloat ''1%2'' = Fin 1"
proof -
  have d: "is_digit CHR ''1''" "is_digit CHR ''2''" "\<not> is_digit CHR ''%''" by (simp_all add: is_digit_def)
  have "portfolio_percent ''1%2'' = Fin (real (digits_val ''12''))"
    using portfolio_percent_digits [of "''1''" "''2''"] d by simp
  moreover have "digits_val ''12'' = 12" by (simp add: digits_val_def)
  moreover have "parseFloat ''1%2'' = Fin 1"
    using parseFloat_digit_start(1) [OF d(1), of "''%2''"] d
    by (simp add: parse_mantissa_def parse_exponent_def pow10_def digits_val_def)
  ultimately show ?thesis by simp
qed

end
