(* ===== verification/Session.thy ===== *)
theory Session
  imports Prelude
begin

text \<open>
  \<open>src/src/api/local-session-manager.ts\<close>: \<open>LocalSessionManager\<close>, three static methods
  over \<open>localStorage\<close> under the key \<open>"accessToken"\<close>, with a testing token from
  \<open>GLOBAL_CONFIGS\<close> that, when truthy, \<open>readToken\<close> returns instead of the stored one.
  The class is referenced only from commented-out code, and the module it imports,
  \<open>src/src/configs/global-config\<close>, is not in the repository, so the configuration is a
  parameter here: a testing token that is absent or a string. \<open>localStorage\<close> is a
  map from keys to strings, passed and returned explicitly; \<open>getItem\<close> of a missing key
  is \<open>null\<close>, which is \<open>None\<close>.
\<close>

record global_configs =
  testingToken :: "string option"

type_synonym local_storage = "string \<rightharpoonup> string"

definition token_key :: string where
  "token_key = ''accessToken''"

definition saveToken :: "string \<Rightarrow> local_storage \<Rightarrow> local_storage" where
  "saveToken token ls = ls(token_key \<mapsto> token)"

text \<open>\<open>if (GLOBAL_CONFIGS.testingToken)\<close>: a string is truthy when it is not empty.\<close>

definition readToken :: "global_configs \<Rightarrow> local_storage \<Rightarrow> string option" where
  "readToken cfg ls =
     (case testingToken cfg of
        Some t \<Rightarrow> if t \<noteq> [] then Some t else ls token_key
      | None \<Rightarrow> ls token_key)"

definition deleteToken :: "local_storage \<Rightarrow> local_storage" where
  "deleteToken ls = ls(token_key := None)"

text \<open>A session as a sequence of the class's mutating calls.\<close>

datatype session_op = SaveToken string | DeleteToken

primrec session_step :: "session_op \<Rightarrow> local_storage \<Rightarrow> local_storage" where
  "session_step (SaveToken t) ls = saveToken t ls"
| "session_step DeleteToken ls = deleteToken ls"

definition run_session :: "session_op list \<Rightarrow> local_storage \<Rightarrow> local_storage" where
  "run_session ops ls = fold session_step ops ls"

text \<open>The abstract contract: the token register holds what the last call wrote.\<close>

fun last_write :: "session_op list \<Rightarrow> string option option" where
  "last_write [] = None"
| "last_write (SaveToken t # ops) = (case last_write ops of None \<Rightarrow> Some (Some t) | w \<Rightarrow> w)"
| "last_write (DeleteToken # ops) = (case last_write ops of None \<Rightarrow> Some None | w \<Rightarrow> w)"

definition no_testing_token :: "global_configs \<Rightarrow> bool" where
  "no_testing_token cfg \<longleftrightarrow> testingToken cfg = None \<or> testingToken cfg = Some []"

subsection \<open>Properties\<close>

lemma run_session_token:
  "run_session ops ls token_key = (case last_write ops of None \<Rightarrow> ls token_key | Some w \<Rightarrow> w)"
proof (induction ops arbitrary: ls)
  case (Cons op ops)
  have "run_session (op # ops) ls token_key = run_session ops (session_step op ls) token_key"
    by (simp add: run_session_def)
  moreover have "session_step op ls token_key = (case op of SaveToken t \<Rightarrow> Some t | DeleteToken \<Rightarrow> None)"
    by (cases op) (simp_all add: saveToken_def deleteToken_def)
  ultimately show ?case
    using Cons.IH [of "session_step op ls"] by (cases op) (simp_all del: session_step.simps split: option.splits)
qed (simp add: run_session_def)

text \<open>
  C32. Refinement: without a testing token, reading the token after any sequence of
  saves and deletes returns what the last of them wrote (the saved string, or null
  after a delete), and the initial value when there was none.
\<close>

theorem readToken_run_session:
  assumes "no_testing_token cfg"
  shows "readToken cfg (run_session ops ls) =
           (case last_write ops of None \<Rightarrow> readToken cfg ls | Some w \<Rightarrow> w)"
  using assms run_session_token [of ops ls]
  by (auto simp: readToken_def no_testing_token_def split: option.splits)

theorem readToken_run_session_witness:
  "no_testing_token \<lparr>testingToken = None\<rparr> \<and>
   readToken \<lparr>testingToken = None\<rparr> (run_session [SaveToken ''abc'', DeleteToken, SaveToken ''xyz''] Map.empty) = Some ''xyz''"
  using readToken_run_session [of "\<lparr>testingToken = None\<rparr>" "[SaveToken ''abc'', DeleteToken, SaveToken ''xyz'']" Map.empty]
  by (simp add: no_testing_token_def)

text \<open>
  C33. A non-empty testing token hides the storage: \<open>readToken\<close> returns it whatever was
  saved or deleted; an empty testing token is falsy and hides nothing.
\<close>

theorem testing_token_overrides:
  assumes "testingToken cfg = Some t"
  shows "readToken cfg (run_session ops ls) = (if t = [] then (case last_write ops of None \<Rightarrow> ls token_key | Some w \<Rightarrow> w) else Some t)"
  using assms run_session_token [of ops ls] by (simp add: readToken_def)

theorem testing_token_overrides_witness:
  "testingToken \<lparr>testingToken = Some ''test''\<rparr> = Some ''test'' \<and>
   readToken \<lparr>testingToken = Some ''test''\<rparr> (run_session [SaveToken ''abc'', DeleteToken] Map.empty) = Some ''test''"
  using testing_token_overrides [of "\<lparr>testingToken = Some ''test''\<rparr>" "''test''" "[SaveToken ''abc'', DeleteToken]" Map.empty]
  by simp

end
