(* ===== verification/Transport.thy ===== *)
theory Transport
  imports ErrorUtils QueryCache
begin

text \<open>
  \<open>src/src/api/app-api-slice.ts\<close>, lines 8 to 22: the \<open>fetchBaseQuery\<close> the slice is
  built on. The slice configures three things: the base URL, a \<open>prepareHeaders\<close> that
  returns the headers unchanged (the \<open>Authorization\<close> and \<open>X-Platform\<close> lines are
  commented out) and a \<open>responseHandler\<close> that returns \<open>response.json()\<close> (the
  401 branch is commented out). What \<open>fetchBaseQuery\<close> does around them is RTK Query's
  documented behaviour, modelled like the JS runtime: \<open>fetch\<close> may reject
  (\<open>FETCH_ERROR\<close>, with \<open>String(e)\<close>); the response handler may reject
  (\<open>PARSING_ERROR\<close>, with the status, the body text and \<open>String(e)\<close>); otherwise the
  default \<open>validateStatus\<close> (status 200 to 299) decides between the data and the error
  object \<open>{status, data}\<close>. No timeout is configured, so no \<open>TIMEOUT_ERROR\<close>.

  The outcome of the network is a \<open>transport\<close> value; \<open>body_json\<close> is what
  \<open>response.json()\<close> settles to: the parsed JSON or, when the body is not JSON, the
  text of the \<open>SyntaxError\<close>. The result is the cache's \<open>fetch_result\<close> over raw JSON
  values, which is how the slice stores it: the response type is a cast, not a check.
\<close>

type_synonym headers = "(string, string) alist"

record http_request =
  req_url :: string
  req_method :: string
  req_headers :: headers

record http_response =
  http_status :: nat
  body_text :: string
  body_json :: "string + jsval"

datatype transport = Responded http_response | FetchRejected string

definition prepareHeaders :: "headers \<Rightarrow> headers" where
  "prepareHeaders headers = headers"

definition responseHandler :: "http_response \<Rightarrow> string + jsval" where
  "responseHandler response = body_json response"

text \<open>The request of \<open>getPortfolioInfo\<close>: base URL and endpoint path, method, and the
  headers \<open>prepareHeaders\<close> leaves of the (empty) default ones.\<close>

definition portfolio_request :: http_request where
  "portfolio_request =
     \<lparr>req_url = base_url @ ep_url getPortfolioInfo, req_method = ep_method getPortfolioInfo,
      req_headers = prepareHeaders []\<rparr>"

definition validateStatus :: "http_response \<Rightarrow> bool" where
  "validateStatus response \<longleftrightarrow> 200 \<le> http_status response \<and> http_status response \<le> 299"

definition fetchBaseQuery :: "transport \<Rightarrow> (jsval, jsval) fetch_result" where
  "fetchBaseQuery t =
     (case t of
        FetchRejected e \<Rightarrow>
          Failed (JObj [(''status'', JStr ''FETCH_ERROR''), (''error'', JStr e)])
      | Responded response \<Rightarrow>
          (case responseHandler response of
             Inl e \<Rightarrow>
               Failed (JObj [(''status'', JStr ''PARSING_ERROR''),
                             (''originalStatus'', JNum (Fin (real (http_status response)))),
                             (''data'', JStr (body_text response)), (''error'', JStr e)])
           | Inr resultData \<Rightarrow>
               if validateStatus response then Fetched resultData
               else Failed (JObj [(''status'', JNum (Fin (real (http_status response)))),
                                  (''data'', resultData)])))"

text \<open>The banner of the error screen: \<open>getErrorFromException(error)\<close> of the stored error.\<close>

definition error_banner :: "transport \<Rightarrow> jsval js option" where
  "error_banner t = (case fetchBaseQuery t of Failed err \<Rightarrow> Some (getErrorFromException err) | Fetched v \<Rightarrow> None)"

text \<open>The \<open>message\<close> field of a JSON error body, \<open>undefined\<close> for a body that is not an
  object.\<close>

definition body_message :: "jsval \<Rightarrow> jsval" where
  "body_message v = (case v of JObj fs \<Rightarrow> obj_get fs ''message'' | _ \<Rightarrow> JUndefined)"

subsection \<open>Properties\<close>

lemma get_prop_message_truthy:
  "truthy v \<Longrightarrow> get_prop v ''message'' = Inr (body_message v)"
  by (cases v) (simp_all add: body_message_def)

lemma body_message_falsy: "\<not> truthy v \<Longrightarrow> body_message v = JUndefined"
  by (cases v) (simp_all add: body_message_def)

text \<open>What \<open>getErrorFromException\<close> makes of the three error objects of \<open>fetchBaseQuery\<close>.\<close>

lemma http_error_message:
  "getErrorFromException (JObj [(''status'', s), (''data'', v)])
     = Inr (if truthy (body_message v) then body_message v else JStr default_error_message)"
  using get_prop_message_truthy [of v] body_message_falsy [of v]
  by (cases "truthy v") (simp_all add: getErrorFromException_obj obj_get_def)

lemma parsing_error_message:
  "getErrorFromException (JObj [(''status'', JStr ''PARSING_ERROR''), (''originalStatus'', n), (''data'', JStr txt), (''error'', e)])
     = Inr (JStr default_error_message)"
  by (simp add: getErrorFromException_obj obj_get_def Let_def)

lemma fetch_error_message:
  "getErrorFromException (JObj [(''status'', JStr ''FETCH_ERROR''), (''error'', e)]) = Inr (JStr default_error_message)"
  by (simp add: getErrorFromException_obj obj_get_def)

lemmas transport_error_simps = http_error_message parsing_error_message fetch_error_message

text \<open>
  C34. Error path across the transport and the banner: every failure \<open>fetchBaseQuery\<close>
  reports is normalised without throwing, and the banner shows the \<open>message\<close> of the
  server's JSON error body when it is truthy, and the generic message otherwise: for a
  network failure, a body that is not JSON, or an error body without a message.
\<close>

theorem transport_error_message:
  "error_banner t =
     (case fetchBaseQuery t of
        Fetched v \<Rightarrow> None
      | Failed err \<Rightarrow>
          Some (Inr (case t of
                       Responded r \<Rightarrow>
                         (case body_json r of
                            Inr v \<Rightarrow> if truthy (body_message v) then body_message v else JStr default_error_message
                          | Inl e \<Rightarrow> JStr default_error_message)
                     | FetchRejected e \<Rightarrow> JStr default_error_message)))"
  by (auto simp: error_banner_def fetchBaseQuery_def responseHandler_def transport_error_simps
      split: transport.split sum.split)

text \<open>
  C35. Type of the banner text: \<open>getErrorFromException\<close> is meant to return a string
  (the spec: failures are normalised "into an ErrorInfo string"), but the banner text is
  not a string exactly when the server answers with an error status and a JSON body
  whose \<open>message\<close> is truthy and not a string, such as \<open>{"message": 42}\<close>.
\<close>

theorem banner_not_string_iff:
  "(\<exists>m. error_banner t = Some (Inr m) \<and> typeof m \<noteq> ''string'') \<longleftrightarrow>
   (\<exists>r v. t = Responded r \<and> body_json r = Inr v \<and> \<not> validateStatus r \<and>
          truthy (body_message v) \<and> typeof (body_message v) \<noteq> ''string'')"
  by (auto simp: error_banner_def fetchBaseQuery_def responseHandler_def transport_error_simps
      default_error_message_def split: transport.split sum.split)

theorem banner_not_string_iff_witness:
  "\<exists>m. error_banner (Responded \<lparr>http_status = 500, body_text = ''{\"message\": 42}'',
                                  body_json = Inr (JObj [(''message'', JNum (Fin 42))])\<rparr>) = Some (Inr m)
       \<and> typeof m \<noteq> ''string''"
  using banner_not_string_iff [of "Responded \<lparr>http_status = 500, body_text = ''{\"message\": 42}'',
                                  body_json = Inr (JObj [(''message'', JNum (Fin 42))])\<rparr>"]
  by (simp add: validateStatus_def body_message_def obj_get_def)

end
