(* ===== verification/AppShell.thy ===== *)
theory AppShell
  imports JsRuntime QueryCache
begin

text \<open>
  The application shell: \<open>src/src/configs/app-theme.ts\<close> (the colour constants
  \<open>AppTheme\<close> and the antd theme built from them), \<open>src/src/App.tsx\<close> (the redux
  \<open>Provider\<close> around the dashboard page) and \<open>src/src/main.tsx\<close> (the root:
  \<open>StrictMode\<close>, antd's \<open>ConfigProvider\<close> with the theme, antd's \<open>App\<close>, then
  \<open>App\<close>). The two theme objects are JS object literals, so they are JS values. The
  element tree is a datatype with one constructor per component of the shell.

  What the shell does to the program's state is mount the page, whose query hook
  subscribes to the cache in an effect and unsubscribes in its cleanup.
  \<open>mount_events\<close> and \<open>unmount_events\<close> are React's semantics of a tree, not code
  of the repository, applied to the repository's tree: they give the cache events of
  mounting it. In a development build \<open>StrictMode\<close>, which \<open>main.tsx\<close> puts at the
  root, runs every effect, its cleanup, and the effect again (React 18 and later); in a
  production build it does nothing.
\<close>

definition AppTheme :: jsval where
  "AppTheme =
     JObj [(''primary'', JStr ''#0191B4''), (''primaryLight'', JStr ''#afdeaa''),
           (''primaryChat'', JStr ''#0191B4''), (''primaryChatLighter'', JStr ''#45B7D2''),
           (''highlight'', JStr ''#f8fafc''), (''secondary'', JStr ''#F9AD6A''),
           (''secondaryDark'', JStr ''#4a707a''), (''success'', JStr ''#52c41a''),
           (''bgColor'', JObj [(''primaryLight'', JStr ''#ebf5ffc4'')])]"

text \<open>\<open>AppTheme.x\<close> and \<open>AppTheme.bgColor.primaryLight\<close>.\<close>

definition app_theme :: "string \<Rightarrow> jsval" where
  "app_theme k = (case AppTheme of JObj fs \<Rightarrow> obj_get fs k | _ \<Rightarrow> JUndefined)"

definition shadow :: jsval where
  "shadow = JStr ''0 2px 8px rgba(0, 0, 0, 0.1)''"

definition antdTheme :: jsval where
  "antdTheme =
     JObj [(''token'', JObj [(''colorPrimary'', app_theme ''primary''), (''colorSuccess'', app_theme ''success''),
                            (''colorError'', JStr ''#ff4d4f''), (''colorWarning'', JStr ''#faad14''),
                            (''colorTextBase'', JStr ''#000''), (''colorTextSecondary'', JStr ''#595959'')]),
           (''components'',
              JObj [(''Card'', JObj [(''borderRadius'', JNum (Fin 8)), (''boxShadow'', shadow)]),
                    (''Table'', JObj [(''borderRadius'', JNum (Fin 8)), (''boxShadow'', shadow),
                                      (''padding'', JNum (Fin 6)),
                                      (''headerBg'', (case app_theme ''bgColor'' of JObj fs \<Rightarrow> obj_get fs ''primaryLight''
                                                                                | _ \<Rightarrow> JUndefined))]),
                    (''Button'', JObj [(''borderRadius'', JNum (Fin 8)), (''boxShadow'', shadow),
                                       (''colorPrimary'', app_theme ''primary''),
                                       (''colorPrimaryBg'', app_theme ''primaryLight''),
                                       (''colorPrimaryBorderHover'', app_theme ''primary'')]),
                    (''Select'', JObj [(''borderRadius'', JNum (Fin 8)), (''boxShadow'', shadow),
                                       (''padding'', JNum (Fin 0)), (''margin'', JNum (Fin 0))])])]"

datatype element =
    StrictMode element
  | ConfigProvider jsval element
  | AntdApp element
  | ReduxProvider element
  | PortfolioTablePage

definition App :: element where
  "App = ReduxProvider PortfolioTablePage"

definition main_root :: element where
  "main_root = StrictMode (ConfigProvider antdTheme (AntdApp App))"

text \<open>Effects of mounting and unmounting a tree on the cache, for the page's query key.\<close>

fun unmount_events :: "'k \<Rightarrow> element \<Rightarrow> ('k, 'v, 'e) cache_event list" where
  "unmount_events k (StrictMode e) = unmount_events k e"
| "unmount_events k (ConfigProvider t e) = unmount_events k e"
| "unmount_events k (AntdApp e) = unmount_events k e"
| "unmount_events k (ReduxProvider e) = unmount_events k e"
| "unmount_events k PortfolioTablePage = [Unsubscribe k]"

fun mount_events :: "bool \<Rightarrow> 'k \<Rightarrow> element \<Rightarrow> ('k, 'v, 'e) cache_event list" where
  "mount_events dev k (StrictMode e) =
     (if dev then mount_events dev k e @ unmount_events k e @ mount_events dev k e else mount_events dev k e)"
| "mount_events dev k (ConfigProvider t e) = mount_events dev k e"
| "mount_events dev k (AntdApp e) = mount_events dev k e"
| "mount_events dev k (ReduxProvider e) = mount_events dev k e"
| "mount_events dev k PortfolioTablePage = [Subscribe k]"

end
