(* ===== verification/Spec2Isabelle.thy ===== *)
theory Spec2Isabelle
  imports CacheSettle SummaryCards StocksTable Session Transport AppShell
begin

text \<open>
  \<^bold>\<open>Verification development of the portfolio dashboard\<close> (sanjeev567/8-byte-frontend).

  \<^bold>\<open>The program.\<close> A React page (\<open>src/src/components/portforlio-table.tsx\<close>) subscribes
  through RTK Query's hook \<open>useGetPortfolioInfoQuery\<close> to \<open>GET /api/portfolio\<close>
  (\<open>src/src/api/app-api-slice.ts\<close>, response shape in \<open>src/src/api/api-types.ts\<close>),
  polled every 15 s, cached for 15 s after the last subscriber leaves. From the hook's
  \<open>{data, error, isLoading}\<close> the page renders a loading screen, an error screen (message
  from \<open>getErrorFromException\<close>, \<open>src/src/utils/error.utils.ts\<close>), a no-data notice, or
  the dashboard: summary card, two chart tabs and one section per sector (summary card,
  stock chart and stock table). The charts live in \<open>src/src/components/*-chart.tsx\<close>.

  \<^bold>\<open>Theories.\<close>
  \<^item> \<open>Prelude\<close>: named collections, type names, lemmas on association lists and lists.
  \<^item> \<open>JsRuntime\<close>: JS values, \<open>typeof\<close>, truthiness, property access that throws on
    \<open>null\<close>/\<open>undefined\<close>, \<open>map\<close> with exceptions; results \<open>'a js = js_error + 'a\<close>.
    This is the semantics of the language, not code of the repository.
  \<^item> \<open>ApiTypes\<close>: \<open>Stock\<close>, \<open>Summary\<close> (the two identical summary interfaces),
    \<open>portfolio_entry\<close> (sector or summary), the response as an association list, and
    \<open>wf_response\<close>, the server's unchecked promise (reserved key holds the summary).
  \<^item> \<open>ErrorUtils\<close>: \<open>getErrorFromException\<close> as written; C9, C10.
  \<^item> \<open>QueryCache\<close>: the cache and poll coordinator of RTK Query, modelled from the spec
    (sections 4.1, 4.2, 5) since the library is not in the repository, with the source's
    configuration (\<open>getPortfolioInfo\<close>: \<open>keepUnusedDataFor: 15\<close>; \<open>dashboard_config\<close>:
    retention 15000 ms, \<open>pollingInterval: 15000\<close>). State \<open>cache_state\<close>: entries by
    key (status, value, error, subscribers, eviction deadline, current request id), poll
    deadlines by key, requests in flight, next request id, clock. Operations
    \<open>subscribe\<close> (with \<open>start\<close>), \<open>unsubscribe\<close>, \<open>begin_fetch\<close> (Loading guard),
    \<open>complete_fetch\<close> (applied only to the request the entry waits for; failure keeps
    the last good value), \<open>poll_tick\<close>, \<open>evict\<close>, \<open>advance\<close>; events and
    \<open>cache_step\<close>; \<open>reachable\<close> as an inductive predicate; \<open>query_view\<close> is the hook's
    result. C1, C5 to C8.
  \<^item> \<open>CacheInvariant\<close>: \<open>cache_inv\<close> (unique request ids; a Loading entry has its request
    in flight and only then; the current request is the newest of its key; poll timer
    armed iff subscribed iff no eviction pending), one preservation lemma per operation,
    and its consequences C2 to C4 and C11.
  \<^item> \<open>PortfolioTable\<close>: \<open>render_dashboard\<close> (screen selection in the code's order),
    \<open>render_ready\<close>, \<open>render_sector\<close>, the sector filter and summary lookup, and the
    \<open>lastUpdated\<close> state with its effect (\<open>page_effect\<close>). C12 to C15.
  \<^item> \<open>Charts\<close>: the three charts' option data (categories, series, colours, pie slices,
    tooltip). C18 to C20, C22.
  \<^item> \<open>JsNumber\<close>: JS number semantics the cards and the table use: division with NaN
    and infinities, \<open>Math.abs\<close>, \<open>Math.min\<close>, \<open>toFixed\<close> (half up on the magnitude,
    sign kept) and \<open>parseFloat\<close> (longest decimal prefix), with the round trip
    \<open>parseFloat_toFixed\<close>. Language semantics, not code of the repository.
  \<^item> \<open>Format\<close>: \<open>formatCurrency\<close> (\<open>src/src/utils/format.utiils.ts\<close>) as
    \<open>Intl.NumberFormat("en-IN", INR)\<close> computes it. C27, C28.
  \<^item> \<open>SummaryCards\<close>: \<open>SectorSummaryCard\<close> and \<open>PortfolioSummaryCard\<close> as records of
    what they render (return percentage, badge, progress value, amounts). C23 to C26.
  \<^item> \<open>NumberLocale\<close>: \<open>Number.prototype.toLocaleString()\<close> with the browser's locale
    as a parameter (en-US or en-IN grouping, up to three fraction digits), and its
    read-back lemma. Language semantics, not code of the repository.
  \<^item> \<open>StocksTable\<close>: \<open>SectorStocksTable\<close>: column renderers per stock (the quantity
    column in a given locale), header, embedded chart, row keys and striping. C29 to C31.
  \<^item> \<open>Session\<close>: \<open>LocalSessionManager\<close> over \<open>localStorage\<close> as an explicit map, with
    the testing token as a parameter; a session is a list of calls. C32, C33.
  \<^item> \<open>CacheSettle\<close>: the network answering every request in flight (spec, section 5)
    as a \<open>while_option\<close> loop over the cache state. C36.
  \<^item> \<open>Transport\<close>: the slice's \<open>fetchBaseQuery\<close> (\<open>src/src/api/app-api-slice.ts\<close>):
    request, \<open>prepareHeaders\<close>, \<open>responseHandler\<close>, \<open>validateStatus\<close>, and the error
    objects it stores in the cache, composed with \<open>getErrorFromException\<close> into the
    error banner. C34, C35.
  \<^item> \<open>AppShell\<close>: \<open>app-theme.ts\<close>, \<open>App.tsx\<close> and \<open>main.tsx\<close>: the theme objects as JS
    values and the element tree of the root. \<open>mount_events\<close> and
    \<open>unmount_events\<close> are React's semantics of mounting a tree, not code of the
    repository: the page's hook subscribes in an effect and unsubscribes in its cleanup,
    and \<open>StrictMode\<close>, which the repository's root uses, runs effect, cleanup and
    effect again in a development build.
  \<^item> This theory: the page on top of the cache (\<open>dashboard_screen\<close>) and the shell on
    top of the cache. C16, C17, C21.

  \<^bold>\<open>What is shown.\<close> Cache safety: no second request while a key's fetch is pending (C1);
  a stale response never changes the entry (C2); a Loading entry always has its answer
  pending and the answer ends Loading (C3); poll and eviction timers agree with the
  subscriber count (C4); completion semantics and the stale-data policy (C5); retention
  (C6); exactly which subscriptions issue a request, so that a second subscriber never
  does (C7); a due poll tick re-arms the timer and fetches whatever the last outcome
  (C8); and that the spec's own single-flight property fails in every reachable state
  where an entry is evicted during its fetch and subscribed again (C11). Error
  normalisation: exactly when it throws (C9), and a precedence divergence for every
  error with a truthy \<open>data\<close> (C10). Page: an error hides cached data (C12, and after
  any failed refetch, C16), well-formed responses render exactly one section per sector,
  the empty card or the sector's card and table (C13), exactly which responses crash the
  page (C14), \<open>lastUpdated\<close> changes only with the data (C15), and no return to the
  loading screen once data arrived (C17). Charts: they agree with the page on the
  sectors (C18), series and colours are aligned with sectors (C19), neighbouring slices
  differ in colour (C20), and bar and tooltip colours disagree when the server's tag
  contradicts the sign (C22). Cards: the progress value lies in [0, 100] for a non-zero
  investment (C23), a zero investment shows NaN or Infinity (C24), the badge has one
  sign when the tag is consistent (C25) and two, \<open>+-\<close>, when it is not (C26).
  Currency: reading a formatted amount back gives it rounded to paise (C27), and its
  digits are grouped the Indian way with two decimals (C28). Stock table: N/A only for a
  missing P/E (C29), rows aligned with the chart's bars (C30), shares read as the digits
  around the first percent sign (C31). Session: the token read is the last one written
  (C32) unless a non-empty testing token overrides it (C33). Transport: every failure
  reaches the banner without an exception, with the server's message or the generic one
  (C34), and the banner is not a string exactly for an error body with a non-string
  message (C35). Environment: from every reachable state the network settles, leaving
  nothing Loading (C36). Shell: from every state of the cache, StrictMode's development
  remount of the repository's root leaves the cache exactly as a production mount (C21).

  \<^bold>\<open>Bounds and fuel.\<close> No definition needs fuel: every recursion is structural, and the
  cache's loops (polling, eviction) are events of the step relation, so runs are finite
  event lists. Time is a natural number of milliseconds; request ids are naturals.
  The one loop without a structural argument, \<open>settle\<close>, is a \<open>while_option\<close>,
  and C36 proves it returns \<open>Some\<close> (the number of requests in flight decreases);
  \<open>group_digits\<close> (digit grouping) is a \<open>function\<close> with a length measure.

  \<^bold>\<open>Not modelled.\<close> Locales other than en-US and en-IN for \<open>toLocaleString()\<close>;
  the rendering effect of the theme (antd applies it; the theme's values are modelled);
  the redux store (\<open>App.tsx\<close> imports \<open>./redux/store\<close>, which is not in the
  repository; the cache model stands for it); chart styling options (axes, fonts,
  gradients); IEEE rounding (finite numbers are reals,
  so \<open>toFixed\<close> and \<open>formatCurrency\<close> round the exact value, and magnitudes of
  \<open>10^21\<close> and more are printed with all digits); \<open>Object.entries\<close> ordering of
  integer-like keys (sector names are words); a JSON \<open>null\<close> body (data is a response or
  absent); non-ASCII whitespace in \<open>parseFloat\<close>; decoding of the response body: the
  slice casts the parsed JSON to \<open>PortfolioResponse\<close> without checking it, so the model
  takes the data to be a response, and \<open>wf_response\<close> names what the server must send.
\<close>

subsection \<open>The page on top of the cache\<close>

text \<open>RTK Query's cache key of \<open>useGetPortfolioInfoQuery(undefined)\<close>.\<close>

definition portfolio_key :: string where
  "portfolio_key = ''getPortfolioInfo(undefined)''"

text \<open>The screen the page renders in a state of the cache.\<close>

definition dashboard_screen :: "(string, PortfolioResponse, jsval) cache_state \<Rightarrow> dashboard_view js" where
  "dashboard_screen s = render_dashboard (query_view s portfolio_key)"

text \<open>The dashboard has data and its first poll is pending.\<close>

definition refetch_pending :: "(string, PortfolioResponse, jsval) cache_state" where
  "refetch_pending = run dashboard_config init_cache
     [Subscribe portfolio_key, Respond portfolio_key 0 (Fetched example_response),
      Advance 15000, PollTick portfolio_key]"

subsection \<open>Properties across components\<close>

text \<open>
  C16. A failed refetch blanks the dashboard: in any state in which the dashboard's entry
  holds a response and waits for a refetch, a failure of that request (with a truthy
  error, as RTK Query's error objects are) leaves the last good response in the cache,
  so the hook still returns it as \<open>data\<close>, yet the page renders the error screen with
  the message \<open>getErrorFromException\<close> makes of the error.
\<close>

theorem poll_failure_hides_cached_data:
  assumes "entries s portfolio_key = Some e" "status e = Loading" "request_id e = Some r"
    "cached_value e = Some d" "truthy x"
  shows "qv_data (query_view (cache_step dashboard_config s (Respond portfolio_key r (Failed x))) portfolio_key)
           = Some d \<and>
         dashboard_screen (cache_step dashboard_config s (Respond portfolio_key r (Failed x)))
           = js_bind (getErrorFromException x) (\<lambda>m. Inr (ErrorView m))"
  using assms by (simp add: complete_fetch_def Let_def query_view_def dashboard_screen_def render_dashboard_def)

text \<open>
  C17. Once the first response has arrived, the page never shows the loading screen again
  while the entry lives: no event of the cache that keeps the entry brings it back.
\<close>

theorem no_loading_screen_after_data:
  assumes "entries s portfolio_key = Some e" "cached_value e \<noteq> None"
    "entries (cache_step dashboard_config s ev) portfolio_key = Some e'"
  shows "dashboard_screen (cache_step dashboard_config s ev) \<noteq> Inr LoadingView"
proof -
  have "cached_value e' \<noteq> None" by (rule cache_step_keeps_value [OF assms])
  then show ?thesis using assms(3)
    by (auto simp: dashboard_screen_def query_view_def render_dashboard_def render_ready_def js_bind_def
        split: option.splits sum.splits if_splits)
qed

theorem no_loading_screen_after_data_witness:
  "dashboard_screen (cache_step dashboard_config refetch_pending (Advance 1000)) \<noteq> Inr LoadingView"
proof -
  have h: "entries refetch_pending portfolio_key = Some (the (entries refetch_pending portfolio_key))"
    "cached_value (the (entries refetch_pending portfolio_key)) \<noteq> None"
    "entries (cache_step dashboard_config refetch_pending (Advance 1000)) portfolio_key
       = Some (the (entries refetch_pending portfolio_key))"
    by (simp_all add: refetch_pending_def cache_simps dashboard_config_def getPortfolioInfo_def Let_def)
  show ?thesis by (rule no_loading_screen_after_data [OF h])
qed

text \<open>
  C21. Composition of the application shell with the cache: the root of \<open>main.tsx\<close>
  wraps the page in \<open>StrictMode\<close>, so a development build subscribes the page,
  unsubscribes it and subscribes it again. From every state of the cache this leaves the
  cache exactly as the production mount, a single subscription, does: no extra request,
  no pending eviction, no extra subscriber.
\<close>

theorem strict_mode_mount_same_state:
  "run cfg s (mount_events True k main_root) = run cfg s (mount_events False k main_root) \<and>
   run cfg s (mount_events False k main_root) = subscribe cfg k s"
  by (auto simp: main_root_def App_def subscribe_def unsubscribe_def start_def begin_fetch_def Let_def
      new_entry_def split: option.splits intro!: cache_state.equality)

theorem poll_failure_hides_cached_data_witness:
  "qv_data (query_view (cache_step dashboard_config refetch_pending
      (Respond portfolio_key 1 (Failed fetch_error_example))) portfolio_key) = Some example_response \<and>
   dashboard_screen (cache_step dashboard_config refetch_pending (Respond portfolio_key 1 (Failed fetch_error_example)))
     = Inr (ErrorView (JStr ''Something Went Wrong''))"
proof -
  have h: "entries refetch_pending portfolio_key = Some (the (entries refetch_pending portfolio_key))"
    "status (the (entries refetch_pending portfolio_key)) = Loading"
    "request_id (the (entries refetch_pending portfolio_key)) = Some 1"
    "cached_value (the (entries refetch_pending portfolio_key)) = Some example_response"
    by (simp_all add: refetch_pending_def cache_simps dashboard_config_def getPortfolioInfo_def Let_def)
  show ?thesis
    using poll_failure_hides_cached_data [OF h, of fetch_error_example]
    by (simp add: fetch_error_example_def getErrorFromException_obj default_error_message_def)
qed

end
